theory Spec2Isabelle
  imports
    Complex_Main
    "HOL-Library.Multiset"
    "HOL-Library.AList"
    "HOL-Library.Char_ord"
    "HOL-Library.List_Lexorder"
begin

section \<open>Conventions of the embedding\<close>

text \<open>
  The repository is Python. Its functions are embedded as HOL functions of the same
  name (a leading underscore is dropped, since an Isabelle name starts with a letter).
  \<^item> A Python \<open>float\<close> is a \<open>real\<close>. The properties below compare scores only where
    rounding cannot change the outcome: the risk score is a quotient \<open>k / 100\<close> of small
    integers compared with the literals 0.1 and 0.95 (correctly rounded division is
    monotone and maps distinct such quotients to distinct floats), and the compliance
    scores that are evaluated are 0 and \<open>2.5 / 3\<close>, which is far from the thresholds
    0.70, 0.80 and 0.90.
  \<^item> Every reading of the clock (\<open>datetime.now()\<close>) is an argument of the function that
    reads it: a point in time is an \<open>int\<close> (microseconds), a formatted time stamp a
    \<open>string\<close>.
  \<^item> A \<open>str\<close> is a \<open>string\<close>, the list of its characters (the code points below 256);
    \<open>len\<close> is \<open>length\<close>.
  \<^item> Logging has no effect on any value and is left out.
  \<^item> A raised exception is the \<open>Inl\<close> of a sum type.
\<close>

section \<open>AIService (src/app/services/ai_service.py)\<close>

text \<open>The dictionary literal built by \<open>analyze_document\<close>, with its six keys.\<close>

record analysis_result =
  ar_document_type :: string
  ar_analyzed_at :: string
  ar_key_findings :: "string list"
  ar_risk_score :: real
  ar_recommendations :: "string list"
  ar_confidence :: real

text \<open>One element of the list built by \<open>generate_audit_recommendations\<close>.\<close>

record recommendation =
  rec_id :: int
  rec_priority :: string
  rec_category :: string
  rec_title :: string
  rec_description :: string
  rec_estimated_effort :: string
  rec_confidence :: real

definition extract_key_findings :: "string \<Rightarrow> string list" where
  "extract_key_findings content =
     [''Key financial metrics identified'',
      ''Potential compliance gaps detected'',
      ''Process improvements recommended'']"

text \<open>
  \<^verbatim>\<open>base_score = len(content) % 100 / 100\<close>, then
  \<^verbatim>\<open>min(max(base_score, 0.1), 0.95)\<close>. The operators \<open>%\<close> and \<open>/\<close> associate to the
  left, and \<open>/\<close> is true division.
\<close>

definition calculate_risk_score :: "string \<Rightarrow> real" where
  "calculate_risk_score content =
     (let base_score = real (length content mod 100) / 100
      in min (max base_score (1 / 10)) (95 / 100))"

definition generate_recommendations :: "string \<Rightarrow> string list" where
  "generate_recommendations content =
     [''Enhance documentation processes'',
      ''Implement additional controls'',
      ''Review current procedures'']"

text \<open>
  \<open>analyze_document\<close>: for a \<open>str\<close> content nothing in its \<open>try\<close> block raises, so
  the handler that raises \<open>AIServiceError\<close> is not reached and the function returns
  its dictionary. \<open>now_iso\<close> is \<^verbatim>\<open>datetime.now().isoformat()\<close>.
\<close>

definition analyze_document :: "string \<Rightarrow> string \<Rightarrow> string \<Rightarrow> analysis_result" where
  "analyze_document now_iso document_content document_type =
     \<lparr> ar_document_type = document_type,
       ar_analyzed_at = now_iso,
       ar_key_findings = extract_key_findings document_content,
       ar_risk_score = calculate_risk_score document_content,
       ar_recommendations = generate_recommendations document_content,
       ar_confidence = 85 / 100 \<rparr>"

text \<open>
  \<open>generate_audit_recommendations\<close>: the argument is never read; it may be any value.
\<close>

definition generate_audit_recommendations :: "'audit_data \<Rightarrow> recommendation list" where
  "generate_audit_recommendations audit_data =
     [\<lparr> rec_id = 1,
        rec_priority = ''high'',
        rec_category = ''compliance'',
        rec_title = ''Implement enhanced documentation controls'',
        rec_description = ''Based on analysis, documentation processes need strengthening'',
        rec_estimated_effort = ''medium'',
        rec_confidence = 88 / 100 \<rparr>,
      \<lparr> rec_id = 2,
        rec_priority = ''medium'',
        rec_category = ''process'',
        rec_title = ''Review approval workflows'',
        rec_description = ''Current approval processes show potential inefficiencies'',
        rec_estimated_effort = ''low'',
        rec_confidence = 75 / 100 \<rparr>]"

section \<open>Python values\<close>

text \<open>
  The arguments typed \<open>Dict[str, Any]\<close> (the data checked for compliance, a notification,
  the configuration of the notification service, the arguments of an audit event) hold
  arbitrary Python values. The embedding covers the values built from \<open>None\<close>, booleans,
  integers, strings, lists and dictionaries; a dictionary is the list of its items in
  insertion order, its keys the hashable values among these.
\<close>

datatype pykey = KNone | KBool bool | KInt int | KStr string

datatype pyval =
    PNone
  | PBool bool
  | PInt int
  | PStr string
  | PList "pyval list"
  | PDict "(pykey \<times> pyval) list"

type_synonym pydict = "(pykey \<times> pyval) list"

fun type_name :: "pyval \<Rightarrow> string" where
  "type_name PNone = ''NoneType''"
| "type_name (PBool b) = ''bool''"
| "type_name (PInt i) = ''int''"
| "type_name (PStr s) = ''str''"
| "type_name (PList xs) = ''list''"
| "type_name (PDict d) = ''dict''"

text \<open>\<open>str(n)\<close> for an integer: its decimal digits.\<close>

definition digit_char :: "nat \<Rightarrow> char" where
  "digit_char d = char_of (48 + d)"

function show_nat :: "nat \<Rightarrow> string" where
  "show_nat n = (if n < 10 then [digit_char n] else show_nat (n div 10) @ [digit_char (n mod 10)])"
  by pat_completeness auto
termination
  by (relation "measure id") auto

declare show_nat.simps [simp del]

definition show_int :: "int \<Rightarrow> string" where
  "show_int i = (if i < 0 then CHR ''-'' # show_nat (nat (- i)) else show_nat (nat i))"

section \<open>Exceptions\<close>

text \<open>
  The exceptions that the modelled code raises itself or receives from the interpreter
  and the libraries it calls. \<open>str_exn\<close> is \<open>str(e)\<close>; for the interpreter's own
  exceptions it gives the usual wording of CPython. The text of a message only ever
  ends up in another message or in the \<open>error\<close> entry of a failed result, and no
  property below depends on it.
\<close>

datatype exn =
    NotIterable string
  | NoLen string
  | Unhashable string
  | NoAttribute string string
  | KeyError string
  | TimedeltaUnsupported string
  | TimedeltaOverflow int
  | JsonError string
  | NotificationServiceError string
  | ComplianceServiceError string

fun str_exn :: "exn \<Rightarrow> string" where
  "str_exn (NotIterable t) = [CHR 0x27] @ t @ [CHR 0x27] @ '' object is not iterable''"
| "str_exn (NoLen t) = ''object of type '' @ [CHR 0x27] @ t @ [CHR 0x27] @ '' has no len()''"
| "str_exn (Unhashable t) = ''unhashable type: '' @ [CHR 0x27] @ t @ [CHR 0x27]"
| "str_exn (NoAttribute t a) =
     [CHR 0x27] @ t @ [CHR 0x27] @ '' object has no attribute '' @ [CHR 0x27] @ a @ [CHR 0x27]"
| "str_exn (KeyError k) = [CHR 0x27] @ k @ [CHR 0x27]"
| "str_exn (TimedeltaUnsupported t) = ''unsupported type for timedelta minutes component: '' @ t"
| "str_exn (TimedeltaOverflow d) =
     ''days='' @ show_int d @ ''; must have magnitude <= 999999999''"
| "str_exn (JsonError m) = m"
| "str_exn (NotificationServiceError m) = m"
| "str_exn (ComplianceServiceError m) = m"

section \<open>ComplianceService (src/app/services/compliance_service.py)\<close>

subsection \<open>Enumerations and result dictionaries\<close>

datatype ComplianceStatus =
  COMPLIANT | NON_COMPLIANT | PARTIALLY_COMPLIANT | PENDING_REVIEW | NOT_APPLICABLE

fun ComplianceStatus_value :: "ComplianceStatus \<Rightarrow> string" where
  "ComplianceStatus_value COMPLIANT = ''compliant''"
| "ComplianceStatus_value NON_COMPLIANT = ''non_compliant''"
| "ComplianceStatus_value PARTIALLY_COMPLIANT = ''partially_compliant''"
| "ComplianceStatus_value PENDING_REVIEW = ''pending_review''"
| "ComplianceStatus_value NOT_APPLICABLE = ''not_applicable''"

datatype ComplianceSeverity = CRITICAL | HIGH | MEDIUM | LOW | INFO

fun ComplianceSeverity_value :: "ComplianceSeverity \<Rightarrow> string" where
  "ComplianceSeverity_value CRITICAL = ''critical''"
| "ComplianceSeverity_value HIGH = ''high''"
| "ComplianceSeverity_value MEDIUM = ''medium''"
| "ComplianceSeverity_value LOW = ''low''"
| "ComplianceSeverity_value INFO = ''info''"

text \<open>An entry of a framework result's \<open>issues\<close> list.\<close>

record compliance_issue =
  ci_type :: string
  ci_severity :: string

text \<open>The dictionary a framework check returns.\<close>

record framework_result =
  fr_framework :: string
  fr_status :: string
  fr_score :: real
  fr_issues :: "compliance_issue list"
  fr_controls_checked :: "string list"

text \<open>
  The dictionary \<open>compliance_results\<close> of \<open>check_compliance\<close>. \<open>framework_results\<close> is a
  dictionary keyed by framework name, kept in insertion order.
\<close>

record compliance_result =
  cr_overall_status :: string
  cr_checked_at :: string
  cr_frameworks_checked :: "string list"
  cr_framework_results :: "(string \<times> framework_result) list"
  cr_issues :: "compliance_issue list"
  cr_recommendations :: "string list"
  cr_compliance_score :: real

text \<open>
  A value of \<open>_compliance_cache\<close>: a dictionary with the keys \<open>result\<close> and
  \<open>cached_at\<close>. A field is \<open>None\<close> when the key is absent, so that the tests the code
  makes on a cached item are branches of the model.
\<close>

record cache_entry =
  ce_result :: "compliance_result option"
  ce_cached_at :: "int option"

subsection \<open>Configuration and construction\<close>

text \<open>
  The configuration is a dictionary keyed by strings. The values the service reads from
  it are covered as \<open>None\<close>, booleans, integers and lists of strings (the kinds of value
  of the default configuration).
\<close>

datatype cfgval = CNone | CBool bool | CInt int | CStrs "string list"

type_synonym compliance_config = "(string \<times> cfgval) list"

fun cfg_truthy :: "cfgval \<Rightarrow> bool" where
  "cfg_truthy CNone = False"
| "cfg_truthy (CBool b) = b"
| "cfg_truthy (CInt i) = (i \<noteq> 0)"
| "cfg_truthy (CStrs xs) = (xs \<noteq> [])"

text \<open>\<open>config.get(key, default)\<close>.\<close>

definition config_get :: "compliance_config \<Rightarrow> string \<Rightarrow> cfgval \<Rightarrow> cfgval" where
  "config_get config key dflt = (case map_of config key of None \<Rightarrow> dflt | Some v \<Rightarrow> v)"

definition cs_get_default_config :: compliance_config where
  "cs_get_default_config =
     [(''strict_mode'', CBool False),
      (''cache_results'', CBool True),
      (''cache_ttl_minutes'', CInt 60),
      (''default_frameworks'', CStrs [''SOX'', ''GDPR'', ''ISO27001''])]"

definition get_supported_frameworks :: "string set" where
  "get_supported_frameworks =
     {''SOX'', ''GDPR'', ''ISO27001'', ''HIPAA'', ''PCI_DSS'', ''SOC2'', ''NIST'', ''COBIT''}"

text \<open>The attributes of a \<open>ComplianceService\<close> object.\<close>

record compliance_service =
  cs_config :: compliance_config
  cs_strict_mode :: cfgval
  cs_cache_results :: cfgval
  cs_supported_frameworks :: "string set"
  cs_compliance_cache :: "(string \<times> cache_entry) list option"

text \<open>
  \<open>__init__\<close>: \<^verbatim>\<open>self.config = config or self._get_default_config()\<close> takes the default
  for \<open>None\<close> and for the empty dictionary;
  \<^verbatim>\<open>self._compliance_cache = {} if self.cache_results else None\<close>.
\<close>

definition ComplianceService_init :: "compliance_config option \<Rightarrow> compliance_service" where
  "ComplianceService_init config_arg =
     (let config = (case config_arg of
                      None \<Rightarrow> cs_get_default_config
                    | Some c \<Rightarrow> if c = [] then cs_get_default_config else c);
          cache_results = config_get config ''cache_results'' (CBool True)
      in \<lparr> cs_config = config,
           cs_strict_mode = config_get config ''strict_mode'' (CBool False),
           cs_cache_results = cache_results,
           cs_supported_frameworks = get_supported_frameworks,
           cs_compliance_cache = (if cfg_truthy cache_results then Some [] else None) \<rparr>)"

subsection \<open>Framework checks\<close>

definition check_sox_compliance :: "pyval \<Rightarrow> framework_result" where
  "check_sox_compliance data =
     \<lparr> fr_framework = ''SOX'',
       fr_status = ComplianceStatus_value COMPLIANT,
       fr_score = 85 / 100,
       fr_issues = [],
       fr_controls_checked = [''financial_reporting'', ''internal_controls'', ''audit_trail''] \<rparr>"

definition check_gdpr_compliance :: "pyval \<Rightarrow> framework_result" where
  "check_gdpr_compliance data =
     \<lparr> fr_framework = ''GDPR'',
       fr_status = ComplianceStatus_value PARTIALLY_COMPLIANT,
       fr_score = 75 / 100,
       fr_issues = [\<lparr> ci_type = ''data_retention'',
                      ci_severity = ComplianceSeverity_value MEDIUM \<rparr>],
       fr_controls_checked = [''data_protection'', ''consent_management'', ''data_retention''] \<rparr>"

definition check_iso27001_compliance :: "pyval \<Rightarrow> framework_result" where
  "check_iso27001_compliance data =
     \<lparr> fr_framework = ''ISO27001'',
       fr_status = ComplianceStatus_value COMPLIANT,
       fr_score = 90 / 100,
       fr_issues = [],
       fr_controls_checked = [''access_control'', ''incident_management'', ''risk_assessment''] \<rparr>"

definition check_generic_compliance :: "pyval \<Rightarrow> framework_result" where
  "check_generic_compliance data =
     \<lparr> fr_framework = ''generic'',
       fr_status = ComplianceStatus_value PENDING_REVIEW,
       fr_score = 50 / 100,
       fr_issues = [],
       fr_controls_checked = [''basic_controls''] \<rparr>"

text \<open>The dictionary \<open>framework_checks\<close> of \<open>_check_framework_compliance\<close>.\<close>

definition framework_checks :: "(string \<times> (pyval \<Rightarrow> framework_result)) list" where
  "framework_checks =
     [(''SOX'', check_sox_compliance),
      (''GDPR'', check_gdpr_compliance),
      (''ISO27001'', check_iso27001_compliance)]"

text \<open>
  \<^verbatim>\<open>check_function = framework_checks.get(framework, self._check_generic_compliance)\<close>,
  then \<^verbatim>\<open>return check_function(data)\<close>.
\<close>

definition check_framework_compliance :: "pyval \<Rightarrow> string \<Rightarrow> framework_result" where
  "check_framework_compliance data framework =
     (let check_function = (case map_of framework_checks framework of
                              None \<Rightarrow> check_generic_compliance
                            | Some f \<Rightarrow> f)
      in check_function data)"

definition determine_overall_status :: "real \<Rightarrow> string" where
  "determine_overall_status compliance_score =
     (if compliance_score \<ge> 90 / 100 then ComplianceStatus_value COMPLIANT
      else if compliance_score \<ge> 70 / 100 then ComplianceStatus_value PARTIALLY_COMPLIANT
      else ComplianceStatus_value NON_COMPLIANT)"

definition generate_compliance_recommendations :: "compliance_result \<Rightarrow> string list" where
  "generate_compliance_recommendations compliance_results =
     (if cr_compliance_score compliance_results < 80 / 100
      then [''Implement additional security controls'',
            ''Enhance documentation processes'',
            ''Conduct regular compliance training'']
      else [])"

subsection \<open>Cache key and cache validity\<close>

text \<open>
  \<open>_generate_cache_key\<close>. \<open>json.dumps\<close> and \<open>hashlib.md5\<close> belong to the standard
  library, not to the repository, and are parameters: \<open>json_dumps v\<close> is
  \<^verbatim>\<open>json.dumps(v, sort_keys=True)\<close>, which raises for a value it cannot serialise, and
  \<open>md5_hexdigest s\<close> is \<^verbatim>\<open>hashlib.md5(s.encode()).hexdigest()\<close>. \<open>sorted\<close> on a list of
  strings is \<open>sort\<close> in the lexicographic order of characters.
\<close>

definition generate_cache_key ::
  "(pyval \<Rightarrow> exn + string) \<Rightarrow> (string \<Rightarrow> string) \<Rightarrow> pyval \<Rightarrow> string list \<Rightarrow> exn + string" where
  "generate_cache_key json_dumps md5_hexdigest data frameworks =
     (case json_dumps (PDict [(KStr ''data'', data),
                              (KStr ''frameworks'', PList (map PStr (sort frameworks)))]) of
        Inl e \<Rightarrow> Inl e
      | Inr key_data \<Rightarrow> Inr (md5_hexdigest key_data))"

fun cfg_type_name :: "cfgval \<Rightarrow> string" where
  "cfg_type_name CNone = ''NoneType''"
| "cfg_type_name (CBool b) = ''bool''"
| "cfg_type_name (CInt i) = ''int''"
| "cfg_type_name (CStrs xs) = ''list''"

text \<open>
  \<^verbatim>\<open>timedelta(minutes=m)\<close>, in microseconds. A boolean counts as the integer 0 or 1;
  another type is refused; the constructor normalises to days, seconds and microseconds
  and raises \<open>OverflowError\<close> when the days exceed 999999999 in magnitude.
\<close>

definition timedelta_minutes :: "cfgval \<Rightarrow> exn + int" where
  "timedelta_minutes v =
     (case v of
        CInt m \<Rightarrow> if \<bar>m div 1440\<bar> \<le> 999999999 then Inr (m * 60000000)
                  else Inl (TimedeltaOverflow (m div 1440))
      | CBool b \<Rightarrow> Inr (if b then 60000000 else 0)
      | _ \<Rightarrow> Inl (TimedeltaUnsupported (cfg_type_name v)))"

text \<open>
  \<open>_is_cache_valid\<close>. An item without \<open>cached_at\<close> is not valid (the empty dictionary,
  for which \<open>not cached_item\<close> holds, is such an item). Otherwise the time to live is
  built first, then the clock is read: \<open>now\<close> is that reading.
\<close>

definition is_cache_valid :: "compliance_config \<Rightarrow> int \<Rightarrow> cache_entry \<Rightarrow> exn + bool" where
  "is_cache_valid config now cached_item =
     (case ce_cached_at cached_item of
        None \<Rightarrow> Inr False
      | Some cached_at \<Rightarrow>
          (case timedelta_minutes (config_get config ''cache_ttl_minutes'' (CInt 60)) of
             Inl e \<Rightarrow> Inl e
           | Inr cache_ttl \<Rightarrow> Inr (now - cached_at < cache_ttl)))"

subsection \<open>check\_compliance\<close>

text \<open>The three readings of the clock that one call of \<open>check_compliance\<close> can make.\<close>

record check_clock =
  clk_validity :: int
  clk_checked_at :: string
  clk_cached_at :: int

text \<open>
  The value of the variable \<open>frameworks\<close> after
  \<^verbatim>\<open>frameworks = frameworks or self.config.get('default_frameworks', ['SOX'])\<close>:
  the argument when it is a non-empty list, the configured default otherwise.
\<close>

definition effective_frameworks :: "compliance_config \<Rightarrow> string list option \<Rightarrow> cfgval" where
  "effective_frameworks config frameworks =
     (case frameworks of
        Some fs \<Rightarrow> if fs \<noteq> [] then CStrs fs
                   else config_get config ''default_frameworks'' (CStrs [''SOX''])
      | None \<Rightarrow> config_get config ''default_frameworks'' (CStrs [''SOX'']))"

text \<open>
  The truth value of \<open>self._compliance_cache\<close> in a condition: \<open>None\<close> and the empty
  dictionary are false.
\<close>

definition cache_truthy :: "(string \<times> cache_entry) list option \<Rightarrow> bool" where
  "cache_truthy cache = (case cache of None \<Rightarrow> False | Some m \<Rightarrow> m \<noteq> [])"

text \<open>
  The block under \<open># Check cache first\<close>:
  \<^verbatim>\<open>if self._compliance_cache and cache_key in self._compliance_cache:\<close> and, for a valid
  item, \<^verbatim>\<open>return cached_result['result']\<close>. The result is \<open>Some r\<close> when the call returns
  \<open>r\<close> from the cache and \<open>None\<close> when it goes on to compute.
\<close>

definition cache_lookup ::
  "compliance_service \<Rightarrow> int \<Rightarrow> string \<Rightarrow> exn + compliance_result option" where
  "cache_lookup svc now cache_key =
     (case cs_compliance_cache svc of
        None \<Rightarrow> Inr None
      | Some m \<Rightarrow>
          if m = [] then Inr None
          else (case map_of m cache_key of
                  None \<Rightarrow> Inr None
                | Some cached_result \<Rightarrow>
                    (case is_cache_valid (cs_config svc) now cached_result of
                       Inl e \<Rightarrow> Inl e
                     | Inr valid \<Rightarrow>
                         if valid
                         then (case ce_result cached_result of
                                 None \<Rightarrow> Inl (KeyError ''result'')
                               | Some r \<Rightarrow> Inr (Some r))
                         else Inr None)))"

text \<open>
  The loop over the frameworks: an unsupported framework is skipped; the result of a
  supported one is stored under its name and its score added to \<open>total_score\<close>.
\<close>

fun check_frameworks ::
  "string set \<Rightarrow> pyval \<Rightarrow> string list \<Rightarrow>
   (string \<times> framework_result) list \<times> real \<Rightarrow> (string \<times> framework_result) list \<times> real" where
  "check_frameworks supported data [] acc = acc"
| "check_frameworks supported data (framework # rest) (framework_results, total_score) =
     (if framework \<notin> supported
      then check_frameworks supported data rest (framework_results, total_score)
      else (let framework_result = check_framework_compliance data framework
            in check_frameworks supported data rest
                 (AList.update framework framework_result framework_results,
                  total_score + fr_score framework_result)))"

text \<open>
  The computation between the cache lookup and the cache update: the initial
  dictionary, the loop, the score, the status and the recommendations.
\<close>

definition compute_compliance ::
  "compliance_service \<Rightarrow> string \<Rightarrow> pyval \<Rightarrow> string list \<Rightarrow> compliance_result" where
  "compute_compliance svc checked_at data frameworks =
     (let initial = \<lparr> cr_overall_status = ComplianceStatus_value PENDING_REVIEW,
                      cr_checked_at = checked_at,
                      cr_frameworks_checked = frameworks,
                      cr_framework_results = [],
                      cr_issues = [],
                      cr_recommendations = [],
                      cr_compliance_score = 0 \<rparr>;
          (framework_results, total_score) =
             check_frameworks (cs_supported_frameworks svc) data frameworks ([], 0);
          r1 = initial\<lparr> cr_framework_results := framework_results \<rparr>;
          r2 = (if framework_results \<noteq> []
                then r1\<lparr> cr_compliance_score := total_score / real (length framework_results) \<rparr>
                else r1);
          r3 = r2\<lparr> cr_overall_status := determine_overall_status (cr_compliance_score r2) \<rparr>
      in r3\<lparr> cr_recommendations := generate_compliance_recommendations r3 \<rparr>)"

text \<open>
  The block under \<open># Cache results\<close>: \<^verbatim>\<open>if self._compliance_cache:\<close> stores the result
  with the time of storing.
\<close>

definition cache_store ::
  "compliance_service \<Rightarrow> string \<Rightarrow> compliance_result \<Rightarrow> int \<Rightarrow> compliance_service" where
  "cache_store svc cache_key compliance_results now =
     (case cs_compliance_cache svc of
        None \<Rightarrow> svc
      | Some m \<Rightarrow>
          if m = [] then svc
          else svc\<lparr> cs_compliance_cache :=
                 Some (AList.update cache_key
                         \<lparr> ce_result = Some compliance_results, ce_cached_at = Some now \<rparr> m) \<rparr>)"

text \<open>
  \<open>check_compliance\<close>. Every exception raised in the body is caught and raised again as
  \<open>ComplianceServiceError\<close>, with the text of the first in its message. The variable
  \<open>frameworks\<close> is first used by \<open>sorted\<close> in \<open>_generate_cache_key\<close>, which raises
  \<open>TypeError\<close> unless it is a list. The result is what the call returns or raises,
  and the service after the call.
\<close>

definition check_compliance ::
  "(pyval \<Rightarrow> exn + string) \<Rightarrow> (string \<Rightarrow> string) \<Rightarrow> check_clock \<Rightarrow>
   compliance_service \<Rightarrow> pyval \<Rightarrow> string list option \<Rightarrow>
   (exn + compliance_result) \<times> compliance_service" where
  "check_compliance json_dumps md5_hexdigest clk svc data frameworks_arg =
     (let failed = (\<lambda>e. (Inl (ComplianceServiceError (''Failed to check compliance: '' @ str_exn e)),
                          svc))
      in case effective_frameworks (cs_config svc) frameworks_arg of
           CStrs frameworks \<Rightarrow>
             (case generate_cache_key json_dumps md5_hexdigest data frameworks of
                Inl e \<Rightarrow> failed e
              | Inr cache_key \<Rightarrow>
                  (case cache_lookup svc (clk_validity clk) cache_key of
                     Inl e \<Rightarrow> failed e
                   | Inr (Some cached) \<Rightarrow> (Inr cached, svc)
                   | Inr None \<Rightarrow>
                       (let compliance_results =
                              compute_compliance svc (clk_checked_at clk) data frameworks
                        in (Inr compliance_results,
                            cache_store svc cache_key compliance_results (clk_cached_at clk)))))
         | v \<Rightarrow> failed (NotIterable (cfg_type_name v)))"

text \<open>A sequence of calls on one service, each with its clock readings and arguments.\<close>

fun run_checks ::
  "(pyval \<Rightarrow> exn + string) \<Rightarrow> (string \<Rightarrow> string) \<Rightarrow>
   (check_clock \<times> pyval \<times> string list option) list \<Rightarrow> compliance_service \<Rightarrow> compliance_service" where
  "run_checks json_dumps md5_hexdigest [] svc = svc"
| "run_checks json_dumps md5_hexdigest ((clk, data, frameworks) # calls) svc =
     run_checks json_dumps md5_hexdigest calls
       (snd (check_compliance json_dumps md5_hexdigest clk svc data frameworks))"

text \<open>The item that the cache of a service holds under a key, if any.\<close>

definition cached_item :: "compliance_service \<Rightarrow> string \<Rightarrow> cache_entry option" where
  "cached_item svc key =
     (case cs_compliance_cache svc of None \<Rightarrow> None | Some m \<Rightarrow> map_of m key)"

section \<open>Operations of the interpreter on Python values\<close>

text \<open>
  Keys are compared as Python compares them: \<open>True\<close> and \<open>1\<close>, \<open>False\<close> and \<open>0\<close> are
  equal (and hash alike), so they are one key of a dictionary.
\<close>

fun key_num :: "pykey \<Rightarrow> int option" where
  "key_num (KBool b) = Some (if b then 1 else 0)"
| "key_num (KInt i) = Some i"
| "key_num KNone = None"
| "key_num (KStr s) = None"

definition key_eq :: "pykey \<Rightarrow> pykey \<Rightarrow> bool" where
  "key_eq a b =
     (case (key_num a, key_num b) of
        (Some i, Some j) \<Rightarrow> i = j
      | (None, None) \<Rightarrow> a = b
      | _ \<Rightarrow> False)"

text \<open>\<open>d.get(k)\<close> as an option, and \<open>d.get(k, default)\<close>.\<close>

fun dict_get :: "pydict \<Rightarrow> pykey \<Rightarrow> pyval option" where
  "dict_get [] k = None"
| "dict_get ((k', v) # d) k = (if key_eq k' k then Some v else dict_get d k)"

definition dict_get_default :: "pydict \<Rightarrow> pykey \<Rightarrow> pyval \<Rightarrow> pyval" where
  "dict_get_default d k dflt = (case dict_get d k of None \<Rightarrow> dflt | Some v \<Rightarrow> v)"

text \<open>\<open>d[k]\<close> for a string \<open>k\<close>: \<open>KeyError\<close> when the key is absent.\<close>

definition dict_getitem :: "pydict \<Rightarrow> string \<Rightarrow> exn + pyval" where
  "dict_getitem d k = (case dict_get d (KStr k) of None \<Rightarrow> Inl (KeyError k) | Some v \<Rightarrow> Inr v)"

text \<open>
  \<open>d[k] = v\<close>: an existing key keeps its place (and the key object first inserted), a new
  key goes to the end.
\<close>

fun dict_set :: "pydict \<Rightarrow> pykey \<Rightarrow> pyval \<Rightarrow> pydict" where
  "dict_set [] k v = [(k, v)]"
| "dict_set ((k', v') # d) k v =
     (if key_eq k' k then (k', v) # d else (k', v') # dict_set d k v)"

text \<open>The truth value of a value in a condition.\<close>

fun py_truthy :: "pyval \<Rightarrow> bool" where
  "py_truthy PNone = False"
| "py_truthy (PBool b) = b"
| "py_truthy (PInt i) = (i \<noteq> 0)"
| "py_truthy (PStr s) = (s \<noteq> [])"
| "py_truthy (PList xs) = (xs \<noteq> [])"
| "py_truthy (PDict d) = (d \<noteq> [])"

text \<open>\<open>len(v)\<close>: \<open>TypeError\<close> for a value that has no length.\<close>

fun py_len :: "pyval \<Rightarrow> exn + nat" where
  "py_len (PStr s) = Inr (length s)"
| "py_len (PList xs) = Inr (length xs)"
| "py_len (PDict d) = Inr (length d)"
| "py_len v = Inl (NoLen (type_name v))"

fun key_val :: "pykey \<Rightarrow> pyval" where
  "key_val KNone = PNone"
| "key_val (KBool b) = PBool b"
| "key_val (KInt i) = PInt i"
| "key_val (KStr s) = PStr s"

text \<open>
  The elements a \<open>for\<close> loop takes from a value: those of a list, the characters of a
  string, the keys of a dictionary; \<open>TypeError\<close> for a value that is not iterable.
\<close>

fun py_iter :: "pyval \<Rightarrow> exn + pyval list" where
  "py_iter (PList xs) = Inr xs"
| "py_iter (PStr s) = Inr (map (\<lambda>c. PStr [c]) s)"
| "py_iter (PDict d) = Inr (map (\<lambda>kv. key_val (fst kv)) d)"
| "py_iter v = Inl (NotIterable (type_name v))"

text \<open>
  A value as a key of a dictionary or an element of a set: lists and dictionaries are
  not hashable.
\<close>

fun as_key :: "pyval \<Rightarrow> exn + pykey" where
  "as_key PNone = Inr KNone"
| "as_key (PBool b) = Inr (KBool b)"
| "as_key (PInt i) = Inr (KInt i)"
| "as_key (PStr s) = Inr (KStr s)"
| "as_key v = Inl (Unhashable (type_name v))"

text \<open>\<open>str(k)\<close> for a hashable value, as an f-string formats it.\<close>

fun key_str :: "pykey \<Rightarrow> string" where
  "key_str KNone = ''None''"
| "key_str (KBool b) = (if b then ''True'' else ''False'')"
| "key_str (KInt i) = show_int i"
| "key_str (KStr s) = s"

text \<open>
  The method call \<open>v.get(k, default)\<close> on an arbitrary value: only a dictionary has the
  method, any other value raises \<open>AttributeError\<close>. \<open>v.get(k)\<close> is the call with the
  default \<open>None\<close>.
\<close>

definition py_get :: "pyval \<Rightarrow> string \<Rightarrow> pyval \<Rightarrow> exn + pyval" where
  "py_get v k dflt =
     (case v of
        PDict d \<Rightarrow> Inr (dict_get_default d (KStr k) dflt)
      | _ \<Rightarrow> Inl (NoAttribute (type_name v) ''get''))"

section \<open>NotificationService (src/app/services/notification_service.py)\<close>

datatype NotificationChannel = EMAIL | SMS | SLACK | IN_APP | WEBHOOK

fun NotificationChannel_value :: "NotificationChannel \<Rightarrow> string" where
  "NotificationChannel_value EMAIL = ''email''"
| "NotificationChannel_value SMS = ''sms''"
| "NotificationChannel_value SLACK = ''slack''"
| "NotificationChannel_value IN_APP = ''in_app''"
| "NotificationChannel_value WEBHOOK = ''webhook''"

subsection \<open>Configuration and construction\<close>

definition ns_get_default_config :: pydict where
  "ns_get_default_config =
     [(KStr ''email'',
         PDict [(KStr ''enabled'', PBool True),
                (KStr ''smtp_server'', PStr ''localhost''),
                (KStr ''smtp_port'', PInt 587),
                (KStr ''use_tls'', PBool True),
                (KStr ''sender_email'', PStr ''audit@company.com''),
                (KStr ''sender_name'', PStr ''Audit System'')]),
      (KStr ''sms'',
         PDict [(KStr ''enabled'', PBool False),
                (KStr ''provider'', PStr ''twilio''),
                (KStr ''sender_number'', PStr ''+1234567890'')]),
      (KStr ''slack'',
         PDict [(KStr ''enabled'', PBool False),
                (KStr ''webhook_url'', PNone),
                (KStr ''default_channel'', PStr ''#audit-alerts'')]),
      (KStr ''in_app'',
         PDict [(KStr ''enabled'', PBool True),
                (KStr ''retention_days'', PInt 30)]),
      (KStr ''webhook'',
         PDict [(KStr ''enabled'', PBool False),
                (KStr ''endpoints'', PList [])]),
      (KStr ''retry'',
         PDict [(KStr ''max_attempts'', PInt 3),
                (KStr ''backoff_factor'', PInt 2),
                (KStr ''initial_delay_seconds'', PInt 1)])]"

text \<open>
  \<open>_get_enabled_channels\<close>: the keys of the configuration whose value is a dictionary
  with a true \<open>enabled\<close>. The set is kept as the list of these keys.
\<close>

definition get_enabled_channels :: "pydict \<Rightarrow> pykey list" where
  "get_enabled_channels config =
     map fst
       (filter (\<lambda>item. case snd item of
                          PDict d \<Rightarrow> py_truthy (dict_get_default d (KStr ''enabled'') (PBool False))
                        | _ \<Rightarrow> False)
          config)"

text \<open>
  The attributes of a \<open>NotificationService\<close> object. A notification is a dictionary
  object that the caller owns, the service changes in place and \<open>sent_notifications\<close>
  refers to: the lists hold addresses, and a store maps an address to the dictionary
  there.
\<close>

record notification_service =
  ns_config :: pydict
  ns_enabled_channels :: "pykey list"
  ns_notification_queue :: "nat list"
  ns_sent_notifications :: "nat list"

type_synonym store = "nat \<Rightarrow> pydict"

definition NotificationService_init :: "pydict option \<Rightarrow> notification_service" where
  "NotificationService_init config_arg =
     (let config = (case config_arg of
                      None \<Rightarrow> ns_get_default_config
                    | Some c \<Rightarrow> if c = [] then ns_get_default_config else c)
      in \<lparr> ns_config = config,
           ns_enabled_channels = get_enabled_channels config,
           ns_notification_queue = [],
           ns_sent_notifications = [] \<rparr>)"

subsection \<open>The channel handlers\<close>

text \<open>
  Each handler runs in a \<open>try\<close> block whose \<open>except Exception\<close> clause returns the
  dictionary \<open>failed_result\<close>. \<open>now_iso\<close> is \<^verbatim>\<open>datetime.now().isoformat()\<close>.
\<close>

definition failed_result :: "exn \<Rightarrow> pyval" where
  "failed_result e = PDict [(KStr ''status'', PStr ''failed''), (KStr ''error'', PStr (str_exn e))]"

text \<open>
  \<open>_send_email\<close>: \<^verbatim>\<open>len(notification['recipients'])\<close> raises \<open>KeyError\<close> without the
  key and \<open>TypeError\<close> for a value without a length; the loop over the recipients
  that follows runs over a value that has a length, and does not raise.
\<close>

definition send_email :: "pydict \<Rightarrow> string \<Rightarrow> pydict \<Rightarrow> pyval" where
  "send_email config now_iso notification =
     (case dict_getitem notification ''recipients'' of
        Inl e \<Rightarrow> failed_result e
      | Inr recipients \<Rightarrow>
          (case py_len recipients of
             Inl e \<Rightarrow> failed_result e
           | Inr n \<Rightarrow> PDict [(KStr ''status'', PStr ''success''),
                             (KStr ''sent_count'', PInt (int n)),
                             (KStr ''sent_at'', PStr now_iso)]))"

definition send_sms :: "pydict \<Rightarrow> string \<Rightarrow> pydict \<Rightarrow> pyval" where
  "send_sms config now_iso notification =
     (case dict_getitem notification ''recipients'' of
        Inl e \<Rightarrow> failed_result e
      | Inr recipients \<Rightarrow>
          (case py_len recipients of
             Inl e \<Rightarrow> failed_result e
           | Inr n \<Rightarrow> PDict [(KStr ''status'', PStr ''success''),
                             (KStr ''sent_count'', PInt (int n)),
                             (KStr ''sent_at'', PStr now_iso)]))"

text \<open>
  \<open>_send_slack\<close>: \<^verbatim>\<open>slack_config = self.config.get('slack', {})\<close>, then
  \<^verbatim>\<open>slack_config.get('default_channel')\<close>.
\<close>

definition send_slack :: "pydict \<Rightarrow> string \<Rightarrow> pydict \<Rightarrow> pyval" where
  "send_slack config now_iso notification =
     (let slack_config = dict_get_default config (KStr ''slack'') (PDict [])
      in case py_get slack_config ''default_channel'' PNone of
           Inl e \<Rightarrow> failed_result e
         | Inr default_channel \<Rightarrow>
             PDict [(KStr ''status'', PStr ''success''),
                    (KStr ''channel'', default_channel),
                    (KStr ''sent_at'', PStr now_iso)])"

definition send_in_app :: "pydict \<Rightarrow> string \<Rightarrow> pydict \<Rightarrow> pyval" where
  "send_in_app config now_iso notification =
     (case dict_getitem notification ''recipients'' of
        Inl e \<Rightarrow> failed_result e
      | Inr recipients \<Rightarrow>
          (case py_len recipients of
             Inl e \<Rightarrow> failed_result e
           | Inr n \<Rightarrow> PDict [(KStr ''status'', PStr ''success''),
                             (KStr ''stored_count'', PInt (int n)),
                             (KStr ''stored_at'', PStr now_iso)]))"

text \<open>
  \<open>_send_webhook\<close>: \<^verbatim>\<open>webhook_config = self.config.get('webhook', {})\<close>, then
  \<^verbatim>\<open>len(webhook_config.get('endpoints', []))\<close>.
\<close>

definition send_webhook :: "pydict \<Rightarrow> string \<Rightarrow> pydict \<Rightarrow> pyval" where
  "send_webhook config now_iso notification =
     (let webhook_config = dict_get_default config (KStr ''webhook'') (PDict [])
      in case py_get webhook_config ''endpoints'' (PList []) of
           Inl e \<Rightarrow> failed_result e
         | Inr endpoints \<Rightarrow>
             (case py_len endpoints of
                Inl e \<Rightarrow> failed_result e
              | Inr n \<Rightarrow> PDict [(KStr ''status'', PStr ''success''),
                                (KStr ''endpoints_notified'', PInt (int n)),
                                (KStr ''sent_at'', PStr now_iso)]))"

text \<open>The dictionary \<open>channel_handlers\<close> of \<open>_send_via_channel\<close>.\<close>

definition channel_handlers :: "(string \<times> (pydict \<Rightarrow> string \<Rightarrow> pydict \<Rightarrow> pyval)) list" where
  "channel_handlers =
     [(NotificationChannel_value EMAIL, send_email),
      (NotificationChannel_value SMS, send_sms),
      (NotificationChannel_value SLACK, send_slack),
      (NotificationChannel_value IN_APP, send_in_app),
      (NotificationChannel_value WEBHOOK, send_webhook)]"

text \<open>
  \<open>_send_via_channel\<close>: \<^verbatim>\<open>handler = channel_handlers.get(channel)\<close> (the keys of the
  dictionary are strings, so only a string finds a handler; a list or a dictionary
  cannot be looked up), \<open>NotificationServiceError\<close> when there is none, else the
  handler's result.
\<close>

definition send_via_channel :: "pydict \<Rightarrow> string \<Rightarrow> pydict \<Rightarrow> pyval \<Rightarrow> exn + pyval" where
  "send_via_channel config now_iso notification channel =
     (case as_key channel of
        Inl e \<Rightarrow> Inl e
      | Inr k \<Rightarrow>
          (case (case k of KStr name \<Rightarrow> map_of channel_handlers name | _ \<Rightarrow> None) of
             None \<Rightarrow> Inl (NotificationServiceError
                            (''Unsupported notification channel: '' @ key_str k))
           | Some handler \<Rightarrow> Inr (handler config now_iso notification)))"

subsection \<open>send\_notification\<close>

text \<open>\<open>_validate_notification\<close>: the loop over the required fields, then the recipients.\<close>

fun check_required_fields :: "pydict \<Rightarrow> string list \<Rightarrow> exn + unit" where
  "check_required_fields notification [] = Inr ()"
| "check_required_fields notification (field # rest) =
     (if dict_get notification (KStr field) = None
      then Inl (NotificationServiceError (''Missing required field: '' @ field))
      else check_required_fields notification rest)"

definition validate_notification :: "pydict \<Rightarrow> exn + unit" where
  "validate_notification notification =
     (case check_required_fields notification [''recipients'', ''subject'', ''content''] of
        Inl e \<Rightarrow> Inl e
      | Inr u \<Rightarrow>
          (case dict_getitem notification ''recipients'' of
             Inl e \<Rightarrow> Inl e
           | Inr recipients \<Rightarrow>
               if \<not> py_truthy recipients
               then Inl (NotificationServiceError ''Recipients list cannot be empty'')
               else Inr ()))"

text \<open>
  The loop over the channels. The test \<^verbatim>\<open>channel not in self.enabled_channels\<close> hashes
  the channel and raises \<open>TypeError\<close> for one that is not hashable; this exception
  leaves the loop. An exception of \<open>_send_via_channel\<close> is caught and recorded as a
  failed result. \<open>handler_at i\<close> is the time stamp read by the handler called in the
  \<open>i\<close>-th iteration.
\<close>

fun send_to_channels ::
  "notification_service \<Rightarrow> (nat \<Rightarrow> string) \<Rightarrow> pydict \<Rightarrow> pyval list \<Rightarrow> nat \<Rightarrow> pydict
   \<Rightarrow> exn + pydict" where
  "send_to_channels svc handler_at notification [] i results = Inr results"
| "send_to_channels svc handler_at notification (channel # rest) i results =
     (case as_key channel of
        Inl e \<Rightarrow> Inl e
      | Inr k \<Rightarrow>
          if \<not> list_ex (key_eq k) (ns_enabled_channels svc)
          then send_to_channels svc handler_at notification rest (Suc i)
                 (dict_set results k
                    (PDict [(KStr ''status'', PStr ''disabled''),
                            (KStr ''message'', PStr ''Channel not enabled'')]))
          else (let channel_result =
                      (case send_via_channel (ns_config svc) (handler_at i) notification channel of
                         Inl e \<Rightarrow> failed_result e
                       | Inr r \<Rightarrow> r)
                in send_to_channels svc handler_at notification rest (Suc i)
                     (dict_set results k channel_result)))"

text \<open>
  \<^verbatim>\<open>any(r.get('status') == 'success' for r in results.values())\<close>: it stops at the
  first success.
\<close>

fun any_success :: "pyval list \<Rightarrow> exn + bool" where
  "any_success [] = Inr False"
| "any_success (r # rs) =
     (case py_get r ''status'' PNone of
        Inl e \<Rightarrow> Inl e
      | Inr status \<Rightarrow> if status = PStr ''success'' then Inr True else any_success rs)"

text \<open>The readings of the clock that one call of \<open>send_notification\<close> makes.\<close>

record send_clock =
  sc_id_stamp :: string
  sc_created_at :: string
  sc_handler_at :: "nat \<Rightarrow> string"
  sc_sent_at :: string

text \<open>
  The first three assignments of \<open>send_notification\<close> to the notification: \<open>id\<close>,
  \<open>created_at\<close> and the status \<open>pending\<close>.
\<close>

definition stamped :: "send_clock \<Rightarrow> pydict \<Rightarrow> pydict" where
  "stamped clk n =
     dict_set
       (dict_set
          (dict_set n (KStr ''id'') (PStr (''notif_'' @ sc_id_stamp clk)))
          (KStr ''created_at'') (PStr (sc_created_at clk)))
       (KStr ''status'') (PStr ''pending'')"

text \<open>
  \<open>send_notification\<close>, called with the dictionary at address \<open>a\<close>. Every exception of
  the body is caught and raised again as \<open>NotificationServiceError\<close>. The result is
  what the call returns (the address of the notification) or raises, the service and
  the store after the call. \<open>sc_id_stamp\<close> is
  \<^verbatim>\<open>datetime.now().strftime('%Y%m%d_%H%M%S_%f')\<close>.
\<close>

definition send_notification ::
  "send_clock \<Rightarrow> nat \<Rightarrow> notification_service \<times> store
   \<Rightarrow> (exn + nat) \<times> notification_service \<times> store" where
  "send_notification clk a state =
     (let svc = fst state;
          heap = snd state;
          failed = (\<lambda>e h. (Inl (NotificationServiceError
                                   (''Failed to send notification: '' @ str_exn e)), svc, h))
      in case validate_notification (heap a) of
           Inl e \<Rightarrow> failed e heap
         | Inr u \<Rightarrow>
             (let n1 = stamped clk (heap a);
                  heap1 = heap(a := n1)
              in case py_iter (dict_get_default n1 (KStr ''channels'') (PList [])) of
                   Inl e \<Rightarrow> failed e heap1
                 | Inr channels \<Rightarrow>
                     (case send_to_channels svc (sc_handler_at clk) n1 channels 0 [] of
                        Inl e \<Rightarrow> failed e heap1
                      | Inr results \<Rightarrow>
                          (case any_success (map snd results) of
                             Inl e \<Rightarrow> failed e heap1
                           | Inr sent \<Rightarrow>
                               (let n2 = dict_set
                                           (dict_set
                                              (dict_set n1 (KStr ''status'')
                                                 (PStr (if sent then ''sent'' else ''failed'')))
                                              (KStr ''results'') (PDict results))
                                           (KStr ''sent_at'') (PStr (sc_sent_at clk))
                                in (Inr a,
                                    svc\<lparr> ns_sent_notifications := ns_sent_notifications svc @ [a] \<rparr>,
                                    heap1(a := n2)))))))"

subsection \<open>Predicates used to state the properties\<close>

text \<open>
  The values that have a length, and the shape of a configuration in which the Slack
  and the webhook handler find what they read: under \<open>slack\<close> nothing or a dictionary;
  under \<open>webhook\<close> nothing, or a dictionary whose \<open>endpoints\<close> is absent or has a length.
\<close>

fun has_len :: "pyval \<Rightarrow> bool" where
  "has_len (PStr s) = True"
| "has_len (PList xs) = True"
| "has_len (PDict d) = True"
| "has_len v = False"

definition handler_config_ok :: "pydict \<Rightarrow> bool" where
  "handler_config_ok config =
     ((case dict_get config (KStr ''slack'') of
         None \<Rightarrow> True
       | Some v \<Rightarrow> (case v of PDict d \<Rightarrow> True | _ \<Rightarrow> False))
      \<and> (case dict_get config (KStr ''webhook'') of
            None \<Rightarrow> True
          | Some v \<Rightarrow>
              (case v of
                 PDict d \<Rightarrow> (case dict_get d (KStr ''endpoints'') of
                                None \<Rightarrow> True
                              | Some e \<Rightarrow> has_len e)
               | _ \<Rightarrow> False)))"

text \<open>A value that is a dictionary (the results of the handlers are).\<close>

definition is_dict :: "pyval \<Rightarrow> bool" where
  "is_dict v = (case v of PDict d \<Rightarrow> True | _ \<Rightarrow> False)"

section \<open>Audit log (src/audit\_project/app/models/audit.py)\<close>











section \<open>Properties of AIService\<close>

lemma calculate_risk_score_clamp:
  "calculate_risk_score content =
     min (max (real (length content mod 100) / 100) (1 / 10)) (95 / 100)"
  by (simp add: calculate_risk_score_def)

text \<open>
  Claim C2, as the code has it. The risk score that \<open>analyze_document\<close> returns is the one
  \<open>calculate_risk_score\<close> computes, and that is \<open>len(content) % 100 / 100\<close> clamped to the
  interval from 0.1 to 0.95: it equals \<open>len(content) % 100 / 100\<close> exactly when
  \<open>len(content) % 100\<close> lies between 10 and 95, it is 0.1 below and 0.95 above.
\<close>

theorem risk_score_is_clamped_quotient:
  "ar_risk_score (analyze_document now_iso content document_type) = calculate_risk_score content
   \<and> (10 \<le> length content mod 100 \<and> length content mod 100 \<le> 95 \<longrightarrow>
        calculate_risk_score content = real (length content mod 100) / 100)
   \<and> (length content mod 100 < 10 \<longrightarrow> calculate_risk_score content = 1 / 10)
   \<and> (95 < length content mod 100 \<longrightarrow> calculate_risk_score content = 95 / 100)"
proof -
  let ?k = "length content mod 100"
  have field: "ar_risk_score (analyze_document now_iso content document_type)
      = calculate_risk_score content"
    by (simp add: analyze_document_def)
  have mid: "calculate_risk_score content = real ?k / 100" if "10 \<le> ?k" "?k \<le> 95"
  proof -
    from that have "1 / 10 \<le> real ?k / 100" "real ?k / 100 \<le> 95 / 100" by simp_all
    then show ?thesis by (simp add: calculate_risk_score_clamp)
  qed
  have low: "calculate_risk_score content = 1 / 10" if "?k < 10"
  proof -
    from that have "real ?k / 100 \<le> 1 / 10" by simp
    then show ?thesis by (simp add: calculate_risk_score_clamp)
  qed
  have high: "calculate_risk_score content = 95 / 100" if "95 < ?k"
  proof -
    from that have "95 / 100 \<le> real ?k / 100" by simp
    then show ?thesis by (simp add: calculate_risk_score_clamp)
  qed
  from field mid low high show ?thesis by blast
qed

theorem risk_score_is_clamped_quotient_witness:
  "ar_risk_score (analyze_document ''2024-05-01T10:00:00'' ''twelve chars'' ''general'')
     = real (length ''twelve chars'' mod 100) / 100
   \<and> calculate_risk_score ''abc'' = 1 / 10
   \<and> calculate_risk_score (replicate 297 (CHR ''x'')) = 95 / 100"
  using risk_score_is_clamped_quotient
          [of "''2024-05-01T10:00:00''" "''twelve chars''" "''general''"]
        risk_score_is_clamped_quotient [of "''t''" "''abc''" "''general''"]
        risk_score_is_clamped_quotient [of "''t''" "replicate 297 (CHR ''x'')" "''general''"]
  by simp

text \<open>
  Claim C2 as the specification states it fails: for the empty document
  \<open>len(content) % 100 / 100\<close> is 0, and the score returned is 0.1.
\<close>

theorem risk_score_unclamped_counterexample:
  "ar_risk_score (analyze_document ''2024-05-01T10:00:00'' '''' ''general'') = 1 / 10
   \<and> real (length '''' mod 100) / 100 = 0
   \<and> ar_risk_score (analyze_document ''2024-05-01T10:00:00'' '''' ''general'')
       \<noteq> real (length '''' mod 100) / 100"
  by (simp add: analyze_document_def calculate_risk_score_def)

text \<open>
  Claim C7. For every argument \<open>generate_audit_recommendations\<close> returns the same list of
  two recommendations, with ids 1 and 2 and priorities \<open>high\<close> and \<open>medium\<close>; two calls
  with different arguments (of any types) return equal lists.
\<close>

theorem generate_audit_recommendations_fixed:
  "generate_audit_recommendations audit_data = generate_audit_recommendations other_data
   \<and> length (generate_audit_recommendations audit_data) = 2
   \<and> map rec_id (generate_audit_recommendations audit_data) = [1, 2]
   \<and> map rec_priority (generate_audit_recommendations audit_data) = [''high'', ''medium'']"
  by (simp add: generate_audit_recommendations_def)

theorem generate_audit_recommendations_fixed_witness:
  "generate_audit_recommendations (5 :: int) = generate_audit_recommendations ''payload''
   \<and> map rec_id (generate_audit_recommendations (5 :: int)) = [1, 2]"
  using generate_audit_recommendations_fixed [of "5 :: int" "''payload''"]
  by blast

section \<open>Properties of ComplianceService\<close>

subsection \<open>Framework checks\<close>

text \<open>
  Claim C3. The score in the result of \<open>_check_framework_compliance\<close> is 0.85 for SOX,
  0.75 for GDPR, 0.90 for ISO27001 and 0.50 for every other framework name, and the whole
  result is the same for any two data arguments.
\<close>

theorem framework_score_is_constant:
  "fr_score (check_framework_compliance data framework) =
     (if framework = ''SOX'' then 85 / 100
      else if framework = ''GDPR'' then 75 / 100
      else if framework = ''ISO27001'' then 90 / 100
      else 50 / 100)
   \<and> check_framework_compliance data framework = check_framework_compliance other_data framework"
  by (simp add: check_framework_compliance_def framework_checks_def check_sox_compliance_def
      check_gdpr_compliance_def check_iso27001_compliance_def check_generic_compliance_def)

theorem framework_score_is_constant_witness:
  "fr_score (check_framework_compliance (PDict [(KStr ''rows'', PInt 3)]) ''SOX'') = 85 / 100
   \<and> fr_score (check_framework_compliance (PDict []) ''GDPR'') = 75 / 100
   \<and> fr_score (check_framework_compliance PNone ''ISO27001'') = 90 / 100
   \<and> fr_score (check_framework_compliance (PDict []) ''HIPAA'') = 50 / 100
   \<and> check_framework_compliance (PDict [(KStr ''rows'', PInt 3)]) ''SOX''
       = check_framework_compliance (PDict []) ''SOX''"
proof -
  have sox: "fr_score (check_framework_compliance (PDict [(KStr ''rows'', PInt 3)]) ''SOX'')
      = 85 / 100"
    using framework_score_is_constant
            [of "PDict [(KStr ''rows'', PInt 3)]" "''SOX''" "PDict []", THEN conjunct1]
    by simp
  have same: "check_framework_compliance (PDict [(KStr ''rows'', PInt 3)]) ''SOX''
      = check_framework_compliance (PDict []) ''SOX''"
    by (rule framework_score_is_constant [THEN conjunct2])
  have gdpr: "fr_score (check_framework_compliance (PDict []) ''GDPR'') = 75 / 100"
    using framework_score_is_constant [of "PDict []" "''GDPR''" "PDict []", THEN conjunct1]
    by simp
  have iso: "fr_score (check_framework_compliance PNone ''ISO27001'') = 90 / 100"
    using framework_score_is_constant [of "PNone" "''ISO27001''" "PDict []", THEN conjunct1]
    by simp
  have other: "fr_score (check_framework_compliance (PDict []) ''HIPAA'') = 50 / 100"
    using framework_score_is_constant [of "PDict []" "''HIPAA''" "PDict []", THEN conjunct1]
    by simp
  from sox gdpr iso other same show ?thesis by blast
qed

subsection \<open>The cache key\<close>

lemma sort_mset_eq:
  fixes xs ys :: "string list"
  assumes "mset xs = mset ys"
  shows "sort xs = sort ys"
  by (rule properties_for_sort) (simp_all add: assms)

text \<open>
  Claim C10. Two frameworks lists that are permutations of each other (they have the same
  elements with the same multiplicities) give the same cache key for the same data,
  whatever \<open>json.dumps\<close> and the hash function do: the key is computed from the sorted
  list. When \<open>json.dumps\<close> raises, it raises for both.
\<close>

theorem cache_key_permutation_invariant:
  assumes "mset frameworks = mset frameworks'"
  shows "generate_cache_key json_dumps md5_hexdigest data frameworks
     = generate_cache_key json_dumps md5_hexdigest data frameworks'"
proof -
  from assms have "sort frameworks = sort frameworks'" by (rule sort_mset_eq)
  then show ?thesis by (simp only: generate_cache_key_def)
qed

theorem cache_key_permutation_invariant_witness:
  "mset [''SOX'', ''GDPR''] = mset [''GDPR'', ''SOX'']
   \<and> generate_cache_key
         (\<lambda>v. if v = PDict [(KStr ''data'', PDict []),
                             (KStr ''frameworks'', PList [PStr ''GDPR'', PStr ''SOX''])]
               then Inr ''sorted'' else Inr ''other'')
         (\<lambda>s. s) (PDict []) [''SOX'', ''GDPR'']
     = generate_cache_key
         (\<lambda>v. if v = PDict [(KStr ''data'', PDict []),
                             (KStr ''frameworks'', PList [PStr ''GDPR'', PStr ''SOX''])]
               then Inr ''sorted'' else Inr ''other'')
         (\<lambda>s. s) (PDict []) [''GDPR'', ''SOX'']"
proof -
  have perm: "mset [''SOX'', ''GDPR''] = mset [''GDPR'', ''SOX'']" by simp
  from perm cache_key_permutation_invariant [OF perm] show ?thesis by blast
qed

subsection \<open>A call that checks nothing\<close>

lemma check_frameworks_unsupported:
  "\<forall>f \<in> set frameworks. f \<notin> supported \<Longrightarrow>
   check_frameworks supported data frameworks acc = acc"
proof (induction frameworks arbitrary: acc)
  case Nil
  then show ?case by simp
next
  case (Cons f frameworks)
  obtain rs t where acc: "acc = (rs, t)" by (cases acc)
  from Cons show ?case by (simp add: acc)
qed

lemma compute_compliance_unsupported:
  assumes "\<forall>f \<in> set frameworks. f \<notin> cs_supported_frameworks svc"
  shows "compute_compliance svc checked_at data frameworks =
     \<lparr> cr_overall_status = ComplianceStatus_value NON_COMPLIANT,
       cr_checked_at = checked_at,
       cr_frameworks_checked = frameworks,
       cr_framework_results = [],
       cr_issues = [],
       cr_recommendations = [''Implement additional security controls'',
                             ''Enhance documentation processes'',
                             ''Conduct regular compliance training''],
       cr_compliance_score = 0 \<rparr>"
  by (simp add: compute_compliance_def check_frameworks_unsupported [OF assms]
      determine_overall_status_def generate_compliance_recommendations_def)

lemma check_compliance_computes:
  assumes "effective_frameworks (cs_config svc) frameworks_arg = CStrs frameworks"
    and "generate_cache_key json_dumps md5_hexdigest data frameworks = Inr cache_key"
    and "cache_lookup svc (clk_validity clk) cache_key = Inr None"
  shows "check_compliance json_dumps md5_hexdigest clk svc data frameworks_arg =
     (Inr (compute_compliance svc (clk_checked_at clk) data frameworks),
      cache_store svc cache_key (compute_compliance svc (clk_checked_at clk) data frameworks)
        (clk_cached_at clk))"
  using assms by (simp add: check_compliance_def Let_def)

text \<open>
  Claim C8, as the code has it. Let \<open>frameworks\<close> be the list the call works on: the
  argument when that is a non-empty list, the configured default list when the argument
  is \<open>None\<close> or empty. If no element of it is supported, \<open>json.dumps\<close> serialises the
  data, and the call is not answered from the cache (the cache holds no valid item for
  the key), then the call returns a result whose \<open>framework_results\<close> is empty, whose
  \<open>compliance_score\<close> is 0.0 and whose \<open>overall_status\<close> is \<open>non_compliant\<close>.
\<close>

theorem nothing_supported_is_non_compliant:
  assumes "effective_frameworks (cs_config svc) frameworks_arg = CStrs frameworks"
    and "\<forall>f \<in> set frameworks. f \<notin> cs_supported_frameworks svc"
    and "generate_cache_key json_dumps md5_hexdigest data frameworks = Inr cache_key"
    and "cache_lookup svc (clk_validity clk) cache_key = Inr None"
  shows "\<exists>r. fst (check_compliance json_dumps md5_hexdigest clk svc data frameworks_arg) = Inr r
     \<and> cr_framework_results r = []
     \<and> cr_compliance_score r = 0
     \<and> cr_overall_status r = ''non_compliant''"
  using assms
  by (simp add: check_compliance_computes compute_compliance_unsupported)

lemmas cs_eval =
  check_compliance_def effective_frameworks_def config_get_def cs_get_default_config_def
  ComplianceService_init_def generate_cache_key_def cache_lookup_def compute_compliance_def
  get_supported_frameworks_def check_framework_compliance_def framework_checks_def
  check_sox_compliance_def check_gdpr_compliance_def check_iso27001_compliance_def
  check_generic_compliance_def determine_overall_status_def
  generate_compliance_recommendations_def cache_store_def is_cache_valid_def
  timedelta_minutes_def Let_def

theorem nothing_supported_is_non_compliant_witness:
  "\<exists>r. fst (check_compliance (\<lambda>v. Inr ''{}'') (\<lambda>s. s)
              \<lparr> clk_validity = 0, clk_checked_at = ''2024-05-01T10:00:00'', clk_cached_at = 0 \<rparr>
              (ComplianceService_init None) (PDict []) (Some [''FOO'', ''BAR''])) = Inr r
     \<and> cr_framework_results r = []
     \<and> cr_compliance_score r = 0
     \<and> cr_overall_status r = ''non_compliant''"
  by (rule nothing_supported_is_non_compliant
        [where frameworks = "[''FOO'', ''BAR'']" and cache_key = "''{}''"])
     (simp_all add: cs_eval)

text \<open>
  Claim C8 as the specification states it fails for the empty frameworks list, in which
  no framework is supported: the service built with the default configuration then
  checks the three default frameworks and returns \<open>partially_compliant\<close> with the score
  \<open>(0.85 + 0.75 + 0.90) / 3\<close>.
\<close>

theorem empty_frameworks_list_counterexample:
  "fst (check_compliance (\<lambda>v. Inr ''{}'') (\<lambda>s. s)
          \<lparr> clk_validity = 0, clk_checked_at = ''2024-05-01T10:00:00'', clk_cached_at = 0 \<rparr>
          (ComplianceService_init None) (PDict []) (Some []))
   = Inr \<lparr> cr_overall_status = ''partially_compliant'',
           cr_checked_at = ''2024-05-01T10:00:00'',
           cr_frameworks_checked = [''SOX'', ''GDPR'', ''ISO27001''],
           cr_framework_results =
             [(''SOX'', check_sox_compliance (PDict [])),
              (''GDPR'', check_gdpr_compliance (PDict [])),
              (''ISO27001'', check_iso27001_compliance (PDict []))],
           cr_issues = [],
           cr_recommendations = [],
           cr_compliance_score = 5 / 6 \<rparr>"
  by (simp add: check_compliance_def effective_frameworks_def config_get_def
      cs_get_default_config_def ComplianceService_init_def generate_cache_key_def
      cache_lookup_def compute_compliance_def get_supported_frameworks_def
      check_framework_compliance_def framework_checks_def determine_overall_status_def
      generate_compliance_recommendations_def cache_store_def check_sox_compliance_def
      check_gdpr_compliance_def check_iso27001_compliance_def Let_def)

subsection \<open>The cache\<close>

lemma cached_item_cache_store:
  "cached_item (cache_store svc cache_key r now) k =
     (if cache_truthy (cs_compliance_cache svc) \<and> k = cache_key
      then Some \<lparr> ce_result = Some r, ce_cached_at = Some now \<rparr>
      else cached_item svc k)"
  by (auto simp add: cached_item_def cache_store_def cache_truthy_def AList.update_conv'
      split: option.splits)

lemma check_compliance_cases:
  "(snd (check_compliance json_dumps md5_hexdigest clk svc data frameworks_arg) = svc)
   \<or> (\<exists>frameworks cache_key.
         effective_frameworks (cs_config svc) frameworks_arg = CStrs frameworks
         \<and> generate_cache_key json_dumps md5_hexdigest data frameworks = Inr cache_key
         \<and> cache_lookup svc (clk_validity clk) cache_key = Inr None
         \<and> check_compliance json_dumps md5_hexdigest clk svc data frameworks_arg =
             (Inr (compute_compliance svc (clk_checked_at clk) data frameworks),
              cache_store svc cache_key
                (compute_compliance svc (clk_checked_at clk) data frameworks)
                (clk_cached_at clk)))"
  by (auto simp add: check_compliance_def Let_def split: cfgval.splits sum.splits option.splits)

lemma cache_lookup_miss_item:
  assumes "cache_lookup svc now cache_key = Inr None"
    and "cached_item svc cache_key = Some item"
    and "cache_truthy (cs_compliance_cache svc)"
  shows "is_cache_valid (cs_config svc) now item = Inr False"
  using assms
  by (auto simp add: cache_lookup_def cached_item_def cache_truthy_def
      split: option.splits sum.splits if_splits)

lemma check_compliance_keeps_key:
  "cached_item svc k \<noteq> None \<Longrightarrow>
   cached_item (snd (check_compliance json_dumps md5_hexdigest clk svc data frameworks_arg)) k
     \<noteq> None"
  using check_compliance_cases [of json_dumps md5_hexdigest clk svc data frameworks_arg]
  by (auto simp add: cached_item_cache_store)

lemma run_checks_keeps_key:
  "cached_item svc k \<noteq> None \<Longrightarrow>
   cached_item (run_checks json_dumps md5_hexdigest calls svc) k \<noteq> None"
proof (induction calls arbitrary: svc)
  case Nil
  then show ?case by simp
next
  case (Cons c calls)
  obtain clk data frameworks where c: "c = (clk, data, frameworks)" by (cases c)
  from Cons.prems
  have "cached_item (snd (check_compliance json_dumps md5_hexdigest clk svc data frameworks)) k
      \<noteq> None"
    by (rule check_compliance_keeps_key)
  then show ?case unfolding c run_checks.simps by (rule Cons.IH)
qed

lemma check_compliance_item:
  assumes "cached_item svc k = Some item"
  shows "cached_item (snd (check_compliance json_dumps md5_hexdigest clk svc data frameworks_arg)) k
           = Some item
     \<or> (\<exists>frameworks.
           effective_frameworks (cs_config svc) frameworks_arg = CStrs frameworks
           \<and> generate_cache_key json_dumps md5_hexdigest data frameworks = Inr k
           \<and> is_cache_valid (cs_config svc) (clk_validity clk) item = Inr False
           \<and> cached_item
                (snd (check_compliance json_dumps md5_hexdigest clk svc data frameworks_arg)) k
              = Some \<lparr> ce_result = Some (compute_compliance svc (clk_checked_at clk) data frameworks),
                       ce_cached_at = Some (clk_cached_at clk) \<rparr>)"
  using check_compliance_cases [of json_dumps md5_hexdigest clk svc data frameworks_arg] assms
  by (auto simp add: cached_item_cache_store dest: cache_lookup_miss_item)

text \<open>
  Claim C6. No call of \<open>check_compliance\<close> removes a key from the cache: a key that holds
  an item before a sequence of calls holds one after it. One call leaves the item under
  a key as it is, unless the call computed the cache key \<open>k\<close> itself, found the item not
  valid (its time to live has expired, or it has no \<open>cached_at\<close>), and stored the result
  it has just computed, with the time of storing, in its place.
\<close>

theorem compliance_cache_never_evicts:
  "(cached_item svc k \<noteq> None \<longrightarrow>
      cached_item (run_checks json_dumps md5_hexdigest calls svc) k \<noteq> None)
   \<and> (cached_item svc k = Some item \<longrightarrow>
        cached_item (snd (check_compliance json_dumps md5_hexdigest clk svc data frameworks_arg)) k
           = Some item
        \<or> (\<exists>frameworks.
           effective_frameworks (cs_config svc) frameworks_arg = CStrs frameworks
           \<and> generate_cache_key json_dumps md5_hexdigest data frameworks = Inr k
           \<and> is_cache_valid (cs_config svc) (clk_validity clk) item = Inr False
           \<and> cached_item
                (snd (check_compliance json_dumps md5_hexdigest clk svc data frameworks_arg)) k
              = Some \<lparr> ce_result = Some (compute_compliance svc (clk_checked_at clk) data frameworks),
                       ce_cached_at = Some (clk_cached_at clk) \<rparr>))"
  using run_checks_keeps_key check_compliance_item by blast

theorem compliance_cache_never_evicts_witness:
  "cached_item
     ((ComplianceService_init None)
        \<lparr> cs_compliance_cache := Some [(''old'', \<lparr> ce_result = None, ce_cached_at = Some 0 \<rparr>)] \<rparr>)
     ''old'' = Some \<lparr> ce_result = None, ce_cached_at = Some 0 \<rparr>
   \<and> cached_item
       (run_checks (\<lambda>v. Inr ''{}'') (\<lambda>s. s)
          [(\<lparr> clk_validity = 7200000000, clk_checked_at = ''2024-05-01T12:00:00'',
              clk_cached_at = 7200000001 \<rparr>, PDict [], Some [''SOX'']),
           (\<lparr> clk_validity = 7200000002, clk_checked_at = ''2024-05-01T12:00:01'',
              clk_cached_at = 7200000003 \<rparr>, PDict [], Some [''GDPR''])]
          ((ComplianceService_init None)
             \<lparr> cs_compliance_cache :=
                 Some [(''old'', \<lparr> ce_result = None, ce_cached_at = Some 0 \<rparr>)] \<rparr>))
       ''old'' \<noteq> None
   \<and> cached_item
       (snd (check_compliance (\<lambda>v. Inr ''{}'') (\<lambda>s. s)
               \<lparr> clk_validity = 7200000000, clk_checked_at = ''2024-05-01T12:00:00'',
                 clk_cached_at = 7200000001 \<rparr>
               ((ComplianceService_init None)
                  \<lparr> cs_compliance_cache :=
                      Some [(''old'', \<lparr> ce_result = None, ce_cached_at = Some 0 \<rparr>)] \<rparr>)
               (PDict []) (Some [''SOX''])))
       ''old'' = Some \<lparr> ce_result = None, ce_cached_at = Some 0 \<rparr>"
proof -
  let ?item = "\<lparr> ce_result = None, ce_cached_at = Some 0 \<rparr>"
  let ?svc = "(ComplianceService_init None) \<lparr> cs_compliance_cache := Some [(''old'', ?item)] \<rparr>"
  let ?clk = "\<lparr> clk_validity = 7200000000, clk_checked_at = ''2024-05-01T12:00:00'',
                 clk_cached_at = 7200000001 \<rparr>"
  let ?dumps = "\<lambda>v :: pyval. Inr ''{}'' :: exn + string"
  let ?md5 = "\<lambda>s :: string. s"
  have held: "cached_item ?svc ''old'' = Some ?item"
    by (simp add: cached_item_def)
  then have present: "cached_item ?svc ''old'' \<noteq> None" by simp
  have kept: "cached_item
       (run_checks ?dumps ?md5
          [(?clk, PDict [], Some [''SOX'']),
           (\<lparr> clk_validity = 7200000002, clk_checked_at = ''2024-05-01T12:00:01'',
              clk_cached_at = 7200000003 \<rparr>, PDict [], Some [''GDPR''])] ?svc)
       ''old'' \<noteq> None"
    using compliance_cache_never_evicts [where svc = ?svc and k = "''old''", THEN conjunct1]
      present by blast
  have other_key: "\<And>fs. generate_cache_key ?dumps ?md5 (PDict []) fs \<noteq> Inr ''old''"
    by (simp add: generate_cache_key_def)
  have same: "cached_item
       (snd (check_compliance ?dumps ?md5 ?clk ?svc (PDict []) (Some [''SOX''])))
       ''old'' = Some ?item"
    using compliance_cache_never_evicts
            [where svc = ?svc and k = "''old''" and item = ?item and json_dumps = ?dumps
               and md5_hexdigest = ?md5 and clk = ?clk and data = "PDict []"
               and frameworks_arg = "Some [''SOX'']", THEN conjunct2]
      held other_key by blast
  from held kept same show ?thesis by blast
qed

subsection \<open>A service as its constructor builds it\<close>

text \<open>
  The constructor sets the cache to the empty dictionary (or to \<open>None\<close>). Both tests of
  \<open>check_compliance\<close> on the cache, \<^verbatim>\<open>if self._compliance_cache and ...\<close> and
  \<^verbatim>\<open>if self._compliance_cache:\<close>, take the empty dictionary for false, so a call on
  such a service neither reads nor writes the cache, and the cache stays empty.
\<close>

lemma empty_cache_stays_empty:
  assumes "cs_compliance_cache svc = Some [] \<or> cs_compliance_cache svc = None"
  shows "snd (check_compliance json_dumps md5_hexdigest clk svc data frameworks_arg) = svc"
  using assms
  by (auto simp add: check_compliance_def cache_store_def Let_def
      split: cfgval.splits sum.splits option.splits)

lemma init_cache_empty:
  "cs_compliance_cache (ComplianceService_init config) = Some []
   \<or> cs_compliance_cache (ComplianceService_init config) = None"
  by (simp add: ComplianceService_init_def Let_def)

lemma run_checks_fresh:
  assumes "cs_compliance_cache svc = Some [] \<or> cs_compliance_cache svc = None"
  shows "run_checks json_dumps md5_hexdigest calls svc = svc"
  using assms
proof (induction calls)
  case Nil
  then show ?case by simp
next
  case (Cons c calls)
  obtain clk data frameworks where c: "c = (clk, data, frameworks)" by (cases c)
  from Cons show ?case by (simp add: c empty_cache_stays_empty)
qed

lemma constructed_service_always_computes:
  assumes "cs_compliance_cache svc = Some [] \<or> cs_compliance_cache svc = None"
    and "fst (check_compliance json_dumps md5_hexdigest clk svc data frameworks_arg) = Inr r"
  shows "\<exists>frameworks. effective_frameworks (cs_config svc) frameworks_arg = CStrs frameworks
     \<and> r = compute_compliance svc (clk_checked_at clk) data frameworks"
  using assms
  by (auto simp add: check_compliance_def cache_lookup_def Let_def
      split: cfgval.splits sum.splits option.splits)

text \<open>
  On a cache that already holds items the lookup does what its comments say: a valid
  item under the key of the call is returned as it is and the service is unchanged; an
  item that is not valid is replaced by a new computation.
\<close>

lemma valid_item_is_returned:
  assumes "effective_frameworks (cs_config svc) frameworks_arg = CStrs frameworks"
    and "generate_cache_key json_dumps md5_hexdigest data frameworks = Inr cache_key"
    and "cached_item svc cache_key = Some \<lparr> ce_result = Some stored, ce_cached_at = Some cached_at \<rparr>"
    and "timedelta_minutes (config_get (cs_config svc) ''cache_ttl_minutes'' (CInt 60)) = Inr ttl"
    and "clk_validity clk - cached_at < ttl"
  shows "check_compliance json_dumps md5_hexdigest clk svc data frameworks_arg = (Inr stored, svc)"
  using assms
  by (auto simp add: check_compliance_def cache_lookup_def cached_item_def is_cache_valid_def
      Let_def split: option.splits)

lemma expired_item_is_recomputed:
  assumes "effective_frameworks (cs_config svc) frameworks_arg = CStrs frameworks"
    and "generate_cache_key json_dumps md5_hexdigest data frameworks = Inr cache_key"
    and "cached_item svc cache_key = Some \<lparr> ce_result = Some stored, ce_cached_at = Some cached_at \<rparr>"
    and "timedelta_minutes (config_get (cs_config svc) ''cache_ttl_minutes'' (CInt 60)) = Inr ttl"
    and "\<not> clk_validity clk - cached_at < ttl"
  shows "check_compliance json_dumps md5_hexdigest clk svc data frameworks_arg =
     (Inr (compute_compliance svc (clk_checked_at clk) data frameworks),
      cache_store svc cache_key (compute_compliance svc (clk_checked_at clk) data frameworks)
        (clk_cached_at clk))"
  using assms
  by (auto simp add: check_compliance_def cache_lookup_def cached_item_def is_cache_valid_def
      Let_def split: option.splits)

text \<open>
  Claim C1 at a concrete input: a service with the default configuration (caching
  enabled) is asked twice, one minute apart, for the same data and the same frameworks.
  The first call stores nothing; the second call has the same cache key, comes well
  within the 60 minutes of the time to live, and computes its result again (it carries
  the time of the second call); the cache is empty after both.
\<close>

theorem repeated_call_is_recomputed:
  "cs_compliance_cache
     (snd (check_compliance (\<lambda>v. Inr ''{}'') (\<lambda>s. s)
             \<lparr> clk_validity = 0, clk_checked_at = ''2024-05-01T10:00:00'', clk_cached_at = 0 \<rparr>
             (ComplianceService_init None) (PDict []) (Some [''SOX'']))) = Some []
   \<and> map_sum id cr_checked_at
       (fst (check_compliance (\<lambda>v. Inr ''{}'') (\<lambda>s. s)
               \<lparr> clk_validity = 0, clk_checked_at = ''2024-05-01T10:00:00'', clk_cached_at = 0 \<rparr>
               (ComplianceService_init None) (PDict []) (Some [''SOX''])))
       = Inr ''2024-05-01T10:00:00''
   \<and> map_sum id cr_checked_at
       (fst (check_compliance (\<lambda>v. Inr ''{}'') (\<lambda>s. s)
               \<lparr> clk_validity = 60000000, clk_checked_at = ''2024-05-01T10:01:00'',
                 clk_cached_at = 60000000 \<rparr>
               (snd (check_compliance (\<lambda>v. Inr ''{}'') (\<lambda>s. s)
                       \<lparr> clk_validity = 0, clk_checked_at = ''2024-05-01T10:00:00'',
                         clk_cached_at = 0 \<rparr>
                       (ComplianceService_init None) (PDict []) (Some [''SOX''])))
               (PDict []) (Some [''SOX''])))
       = Inr ''2024-05-01T10:01:00''
   \<and> cs_compliance_cache
       (snd (check_compliance (\<lambda>v. Inr ''{}'') (\<lambda>s. s)
               \<lparr> clk_validity = 60000000, clk_checked_at = ''2024-05-01T10:01:00'',
                 clk_cached_at = 60000000 \<rparr>
               (snd (check_compliance (\<lambda>v. Inr ''{}'') (\<lambda>s. s)
                       \<lparr> clk_validity = 0, clk_checked_at = ''2024-05-01T10:00:00'',
                         clk_cached_at = 0 \<rparr>
                       (ComplianceService_init None) (PDict []) (Some [''SOX''])))
               (PDict []) (Some [''SOX'']))) = Some []"
  by (simp add: cs_eval)

section \<open>Properties of NotificationService\<close>

subsection \<open>The channel handlers\<close>

lemma has_len_py_len: "has_len v \<Longrightarrow> \<exists>n. py_len v = Inr n"
  by (cases v) simp_all

lemma send_slack_ok:
  assumes "handler_config_ok config"
  shows "\<exists>r. send_slack config now_iso notification = PDict r
     \<and> dict_get r (KStr ''status'') = Some (PStr ''success'')"
  using assms
  by (auto simp add: handler_config_ok_def send_slack_def py_get_def dict_get_default_def
      key_eq_def Let_def split: option.splits pyval.splits)

lemma send_webhook_ok:
  assumes "handler_config_ok config"
  shows "\<exists>r. send_webhook config now_iso notification = PDict r
     \<and> dict_get r (KStr ''status'') = Some (PStr ''success'')"
proof -
  obtain e where e: "py_get (dict_get_default config (KStr ''webhook'') (PDict [])) ''endpoints''
      (PList []) = Inr e" and len: "has_len e"
    using assms
    by (auto simp add: handler_config_ok_def py_get_def dict_get_default_def
        split: option.splits pyval.splits)
  from len obtain n where "py_len e = Inr n" using has_len_py_len by blast
  with e show ?thesis by (simp add: send_webhook_def key_eq_def Let_def)
qed

lemma send_with_recipients_ok:
  assumes "dict_get notification (KStr ''recipients'') = Some (PList recipients)"
  shows "\<exists>r. send_email config now_iso notification = PDict r
       \<and> dict_get r (KStr ''status'') = Some (PStr ''success'')"
    and "\<exists>r. send_sms config now_iso notification = PDict r
       \<and> dict_get r (KStr ''status'') = Some (PStr ''success'')"
    and "\<exists>r. send_in_app config now_iso notification = PDict r
       \<and> dict_get r (KStr ''status'') = Some (PStr ''success'')"
  using assms
  by (simp_all add: send_email_def send_sms_def send_in_app_def dict_getitem_def key_eq_def)

text \<open>
  Claim C4, as the code has it. Let the configuration of the service have the shape
  \<open>handler_config_ok\<close> (the default configuration has it). Then for every notification
  whose \<open>recipients\<close> is a list and every channel among \<open>email\<close>, \<open>sms\<close>, \<open>slack\<close>,
  \<open>in_app\<close> and \<open>webhook\<close>, \<open>_send_via_channel\<close> returns the dictionary of the handler
  of that channel, and its \<open>status\<close> is \<open>success\<close>.
\<close>

theorem handlers_report_success:
  assumes "dict_get notification (KStr ''recipients'') = Some (PList recipients)"
    and "channel \<in> {''email'', ''sms'', ''slack'', ''in_app'', ''webhook''}"
    and "handler_config_ok config"
  shows "\<exists>handler r.
       map_of channel_handlers channel = Some handler
     \<and> send_via_channel config now_iso notification (PStr channel)
         = Inr (handler config now_iso notification)
     \<and> handler config now_iso notification = PDict r
     \<and> dict_get r (KStr ''status'') = Some (PStr ''success'')"
proof -
  from assms(2) consider "channel = ''email''" | "channel = ''sms''" | "channel = ''slack''"
    | "channel = ''in_app''" | "channel = ''webhook''" by auto
  then show ?thesis
  proof cases
    case 1
    with send_with_recipients_ok(1) [OF assms(1), of config now_iso] show ?thesis
      by (auto simp add: send_via_channel_def channel_handlers_def)
  next
    case 2
    with send_with_recipients_ok(2) [OF assms(1), of config now_iso] show ?thesis
      by (auto simp add: send_via_channel_def channel_handlers_def)
  next
    case 3
    with send_slack_ok [OF assms(3), of now_iso notification] show ?thesis
      by (auto simp add: send_via_channel_def channel_handlers_def)
  next
    case 4
    with send_with_recipients_ok(3) [OF assms(1), of config now_iso] show ?thesis
      by (auto simp add: send_via_channel_def channel_handlers_def)
  next
    case 5
    with send_webhook_ok [OF assms(3), of now_iso notification] show ?thesis
      by (auto simp add: send_via_channel_def channel_handlers_def)
  qed
qed

lemma default_config_ok: "handler_config_ok ns_get_default_config"
  by (simp add: handler_config_ok_def ns_get_default_config_def key_eq_def)

theorem handlers_report_success_witness:
  "handler_config_ok ns_get_default_config
   \<and> (\<exists>r. send_via_channel ns_get_default_config ''2024-05-01T10:00:00''
            [(KStr ''recipients'', PList [PStr ''auditor@example.com''])] (PStr ''webhook'')
          = Inr (PDict r)
        \<and> dict_get r (KStr ''status'') = Some (PStr ''success''))
   \<and> (\<exists>r. send_via_channel ns_get_default_config ''2024-05-01T10:00:00''
            [(KStr ''recipients'', PList [PStr ''auditor@example.com''])] (PStr ''email'')
          = Inr (PDict r)
        \<and> dict_get r (KStr ''status'') = Some (PStr ''success''))"
proof -
  let ?n = "[(KStr ''recipients'', PList [PStr ''auditor@example.com''])]"
  have ok: "handler_config_ok ns_get_default_config"
    by (simp add: handler_config_ok_def ns_get_default_config_def key_eq_def)
  have rcp: "dict_get ?n (KStr ''recipients'') = Some (PList [PStr ''auditor@example.com''])"
    by (simp add: key_eq_def)
  have ch: "''webhook'' \<in> {''email'', ''sms'', ''slack'', ''in_app'', ''webhook''}"
    and ch': "''email'' \<in> {''email'', ''sms'', ''slack'', ''in_app'', ''webhook''}"
    by simp_all
  from handlers_report_success [OF rcp ch ok, of "''2024-05-01T10:00:00''"]
  have webhook: "\<exists>r. send_via_channel ns_get_default_config ''2024-05-01T10:00:00'' ?n
         (PStr ''webhook'') = Inr (PDict r)
       \<and> dict_get r (KStr ''status'') = Some (PStr ''success'')"
    by auto
  from handlers_report_success [OF rcp ch' ok, of "''2024-05-01T10:00:00''"]
  have email: "\<exists>r. send_via_channel ns_get_default_config ''2024-05-01T10:00:00'' ?n
         (PStr ''email'') = Inr (PDict r)
       \<and> dict_get r (KStr ''status'') = Some (PStr ''success'')"
    by auto
  from ok webhook email show ?thesis by blast
qed

text \<open>
  Claim C4 as the specification states it fails: the failure branch of a handler is
  taken when the configuration does not have that shape. With \<open>endpoints\<close> set to
  \<open>None\<close> in the configuration, \<open>len\<close> raises in \<open>_send_webhook\<close> and the handler
  returns the status \<open>failed\<close>, for a notification with a list of recipients.
\<close>

theorem webhook_endpoints_none_counterexample:
  "send_via_channel
     (ns_config
        (NotificationService_init
           (Some [(KStr ''webhook'',
                   PDict [(KStr ''enabled'', PBool True), (KStr ''endpoints'', PNone)])])))
     ''2024-05-01T10:00:00''
     [(KStr ''recipients'', PList [PStr ''auditor@example.com''])]
     (PStr ''webhook'')
   = Inr (PDict [(KStr ''status'', PStr ''failed''),
                 (KStr ''error'', PStr (str_exn (NoLen ''NoneType'')))])
   \<and> dict_get [(KStr ''recipients'', PList [PStr ''auditor@example.com''])] (KStr ''recipients'')
     = Some (PList [PStr ''auditor@example.com''])"
  by (simp add: send_via_channel_def channel_handlers_def send_webhook_def py_get_def
      dict_get_default_def key_eq_def failed_result_def NotificationService_init_def Let_def)

subsection \<open>Dictionaries\<close>

lemma key_eq_sym: "key_eq a b = key_eq b a"
  by (auto simp add: key_eq_def split: option.splits)

lemma key_eq_trans: "key_eq a b \<Longrightarrow> key_eq b c \<Longrightarrow> key_eq a c"
  by (auto simp add: key_eq_def split: option.splits)

lemma key_eq_KStr: "key_eq (KStr s) k = (k = KStr s)" "key_eq k (KStr s) = (k = KStr s)"
  by (cases k; auto simp add: key_eq_def)+

lemma dict_get_dict_set:
  "dict_get (dict_set d k v) k' = (if key_eq k k' then Some v else dict_get d k')"
proof (induction d)
  case Nil
  then show ?case by simp
next
  case (Cons p d)
  obtain k0 v0 where p: "p = (k0, v0)" by (cases p)
  show ?case
  proof (cases "key_eq k0 k")
    case True
    then have "key_eq k0 k' = key_eq k k'"
      using key_eq_trans key_eq_sym by blast
    with True show ?thesis by (simp add: p)
  next
    case False
    then have "\<not> (key_eq k0 k' \<and> key_eq k k')"
      using key_eq_trans key_eq_sym by blast
    with False Cons.IH show ?thesis by (auto simp add: p)
  qed
qed

lemma dict_set_values: "set (map snd (dict_set d k v)) \<subseteq> insert v (set (map snd d))"
  by (induction d) (auto split: if_splits, force+)

subsection \<open>send\_notification\<close>

lemma handlers_return_dict:
  "is_dict (send_email config now_iso n)" "is_dict (send_sms config now_iso n)"
  "is_dict (send_slack config now_iso n)" "is_dict (send_in_app config now_iso n)"
  "is_dict (send_webhook config now_iso n)" "is_dict (failed_result e)"
  by (simp_all add: is_dict_def send_email_def send_sms_def send_slack_def send_in_app_def
      send_webhook_def failed_result_def Let_def split: sum.splits)

lemma send_via_channel_dict:
  "send_via_channel config now_iso n channel = Inr r \<Longrightarrow> is_dict r"
  by (auto simp add: send_via_channel_def channel_handlers_def handlers_return_dict
      split: sum.splits option.splits pykey.splits if_splits)

lemma send_to_channels_dicts:
  assumes "send_to_channels svc handler_at n channels i results = Inr results'"
    and "\<forall>v \<in> set (map snd results). is_dict v"
  shows "\<forall>v \<in> set (map snd results'). is_dict v"
  using assms
proof (induction channels arbitrary: i results)
  case Nil
  then show ?case by simp
next
  case (Cons channel rest)
  from Cons.prems(1) obtain k where k: "as_key channel = Inr k"
    by (auto split: sum.splits)
  let ?v = "if \<not> list_ex (key_eq k) (ns_enabled_channels svc)
            then PDict [(KStr ''status'', PStr ''disabled''),
                        (KStr ''message'', PStr ''Channel not enabled'')]
            else (case send_via_channel (ns_config svc) (handler_at i) n channel of
                    Inl e \<Rightarrow> failed_result e | Inr r \<Rightarrow> r)"
  have step: "send_to_channels svc handler_at n rest (Suc i) (dict_set results k ?v) = Inr results'"
    using Cons.prems(1) k by (simp add: Let_def split: if_splits)
  have v: "is_dict ?v"
    by (auto simp add: is_dict_def [of "PDict _"] handlers_return_dict send_via_channel_dict
        split: sum.splits)
  have "\<forall>v \<in> set (map snd (dict_set results k ?v)). is_dict v"
    using dict_set_values [of results k ?v] Cons.prems(2) v by blast
  with step show ?case by (rule Cons.IH)
qed

lemma any_success_dicts:
  "\<forall>v \<in> set rs. is_dict v \<Longrightarrow> \<exists>b. any_success rs = Inr b"
  by (induction rs) (auto simp add: is_dict_def py_get_def split: pyval.splits)

lemma send_to_channels_hashable:
  "\<forall>c \<in> set channels. \<exists>k. as_key c = Inr k \<Longrightarrow>
   \<exists>results'. send_to_channels svc handler_at n channels i results = Inr results'"
proof (induction channels arbitrary: i results)
  case Nil
  then show ?case by simp
next
  case (Cons channel rest)
  then obtain k where k: "as_key channel = Inr k" by auto
  from Cons have "\<And>i results. \<exists>results'. send_to_channels svc handler_at n rest i results = Inr results'"
    by simp
  with k show ?case by (simp add: Let_def)
qed

lemma send_to_channels_unhashable:
  "\<exists>c \<in> set channels. \<exists>e. as_key c = Inl e \<Longrightarrow>
   \<exists>e. send_to_channels svc handler_at n channels i results = Inl e"
proof (induction channels arbitrary: i results)
  case Nil
  then show ?case by simp
next
  case (Cons channel rest)
  show ?case
  proof (cases "as_key channel")
    case (Inl e)
    then show ?thesis by simp
  next
    case (Inr k)
    with Cons.prems have "\<exists>c \<in> set rest. \<exists>e. as_key c = Inl e" by auto
    then have "\<And>i results. \<exists>e. send_to_channels svc handler_at n rest i results = Inl e"
      by (rule Cons.IH)
    with Inr show ?thesis by (simp add: Let_def)
  qed
qed


lemma check_required_fields_iff:
  "check_required_fields n required = Inr () \<longleftrightarrow>
     (\<forall>f \<in> set required. dict_get n (KStr f) \<noteq> None)"
  by (induction required) auto

lemma check_required_fields_error:
  "check_required_fields n required = Inl e \<Longrightarrow> \<exists>m. e = NotificationServiceError m"
  by (induction required) (auto split: if_splits)

lemma validate_notification_iff:
  "validate_notification n = Inr () \<longleftrightarrow>
     (\<exists>r. dict_get n (KStr ''recipients'') = Some r \<and> py_truthy r)
     \<and> dict_get n (KStr ''subject'') \<noteq> None
     \<and> dict_get n (KStr ''content'') \<noteq> None"
proof -
  have req: "check_required_fields n [''recipients'', ''subject'', ''content''] = Inr () \<longleftrightarrow>
      dict_get n (KStr ''recipients'') \<noteq> None \<and> dict_get n (KStr ''subject'') \<noteq> None
      \<and> dict_get n (KStr ''content'') \<noteq> None"
    by (simp add: check_required_fields_iff)
  show ?thesis
  proof (cases "check_required_fields n [''recipients'', ''subject'', ''content'']")
    case (Inl e)
    with req show ?thesis by (auto simp add: validate_notification_def)
  next
    case (Inr u)
    with req show ?thesis
      by (auto simp add: validate_notification_def dict_getitem_def split: option.splits)
  qed
qed

lemma stamped_channels:
  "dict_get_default (stamped clk n) (KStr ''channels'') dflt
     = dict_get_default n (KStr ''channels'') dflt"
  by (simp add: stamped_def dict_get_default_def dict_get_dict_set key_eq_KStr)

lemma send_notification_invalid:
  assumes "validate_notification (heap a) = Inl e"
  shows "send_notification clk a (svc, heap) =
     (Inl (NotificationServiceError (''Failed to send notification: '' @ str_exn e)), svc, heap)"
  using assms by (simp add: send_notification_def Let_def)

lemma send_notification_result:
  "(\<exists>m h. send_notification clk a (svc, heap) = (Inl (NotificationServiceError m), svc, h))
   \<or> (\<exists>h. send_notification clk a (svc, heap)
            = (Inr a, svc\<lparr> ns_sent_notifications := ns_sent_notifications svc @ [a] \<rparr>, h))"
  by (simp add: send_notification_def Let_def split: sum.splits)

lemma send_notification_valid:
  assumes valid: "validate_notification (heap a) = Inr ()"
    and iter: "py_iter (dict_get_default (heap a) (KStr ''channels'') (PList [])) = Inr channels"
    and hashable: "\<forall>c \<in> set channels. \<exists>k. as_key c = Inr k"
  shows "fst (send_notification clk a (svc, heap)) = Inr a"
proof -
  let ?n1 = "stamped clk (heap a)"
  from iter have iter1: "py_iter (dict_get_default ?n1 (KStr ''channels'') (PList [])) = Inr channels"
    by (simp add: stamped_channels)
  from hashable obtain results
    where loop: "send_to_channels svc (sc_handler_at clk) ?n1 channels 0 [] = Inr results"
    using send_to_channels_hashable by blast
  then have "\<forall>v \<in> set (map snd results). is_dict v"
    by (rule send_to_channels_dicts) simp
  then obtain sent where "any_success (map snd results) = Inr sent"
    using any_success_dicts by blast
  with valid iter1 loop show ?thesis
    by (simp add: send_notification_def Let_def stamped_def)
qed

lemma send_notification_bad_channels:
  assumes valid: "validate_notification (heap a) = Inr ()"
    and bad: "(\<exists>e. py_iter (dict_get_default (heap a) (KStr ''channels'') (PList [])) = Inl e)
       \<or> (\<exists>channels.
            py_iter (dict_get_default (heap a) (KStr ''channels'') (PList [])) = Inr channels
            \<and> (\<exists>c \<in> set channels. \<exists>e. as_key c = Inl e))"
  shows "\<exists>m. fst (send_notification clk a (svc, heap)) = Inl (NotificationServiceError m)"
proof -
  let ?n1 = "stamped clk (heap a)"
  from bad show ?thesis
  proof
    assume "\<exists>e. py_iter (dict_get_default (heap a) (KStr ''channels'') (PList [])) = Inl e"
    then obtain e where "py_iter (dict_get_default ?n1 (KStr ''channels'') (PList [])) = Inl e"
      by (auto simp add: stamped_channels)
    with valid show ?thesis by (simp add: send_notification_def Let_def stamped_def)
  next
    assume "\<exists>channels.
            py_iter (dict_get_default (heap a) (KStr ''channels'') (PList [])) = Inr channels
            \<and> (\<exists>c \<in> set channels. \<exists>e. as_key c = Inl e)"
    then obtain channels
      where iter: "py_iter (dict_get_default ?n1 (KStr ''channels'') (PList [])) = Inr channels"
        and "\<exists>c \<in> set channels. \<exists>e. as_key c = Inl e"
      by (auto simp add: stamped_channels)
    then obtain e where "send_to_channels svc (sc_handler_at clk) ?n1 channels 0 [] = Inl e"
      using send_to_channels_unhashable by blast
    with valid iter show ?thesis by (simp add: send_notification_def Let_def stamped_def)
  qed
qed

text \<open>
  Claim C9, as the code has it. For a notification whose \<open>recipients\<close>, when present, is
  a list and whose \<open>channels\<close>, when present, is a list of strings, \<open>send_notification\<close>
  raises \<open>NotificationServiceError\<close> if and only if one of the fields \<open>recipients\<close>,
  \<open>subject\<close>, \<open>content\<close> is missing or the list of recipients is empty. For every
  notification: when the validation fails the call raises and leaves the service and
  the notification as they were; whenever the call raises, the service (and with it
  \<open>sent_notifications\<close>) is unchanged; when it returns, it returns the notification
  and has appended exactly this one record to \<open>sent_notifications\<close>.
\<close>

theorem send_notification_raises_iff_invalid:
  "((dict_get (heap a) (KStr ''recipients'') = None
       \<or> (\<exists>rs. dict_get (heap a) (KStr ''recipients'') = Some (PList rs)))
     \<and> (dict_get (heap a) (KStr ''channels'') = None
       \<or> (\<exists>cs. dict_get (heap a) (KStr ''channels'') = Some (PList (map PStr cs))))
     \<longrightarrow>
       ((\<exists>m. fst (send_notification clk a (svc, heap)) = Inl (NotificationServiceError m))
        \<longleftrightarrow> (dict_get (heap a) (KStr ''recipients'') = None
             \<or> dict_get (heap a) (KStr ''subject'') = None
             \<or> dict_get (heap a) (KStr ''content'') = None
             \<or> dict_get (heap a) (KStr ''recipients'') = Some (PList []))))
   \<and> (validate_notification (heap a) \<noteq> Inr () \<longrightarrow>
        (\<exists>m. fst (send_notification clk a (svc, heap)) = Inl (NotificationServiceError m))
        \<and> snd (send_notification clk a (svc, heap)) = (svc, heap))
   \<and> ((\<exists>e. fst (send_notification clk a (svc, heap)) = Inl e) \<longrightarrow>
        fst (snd (send_notification clk a (svc, heap))) = svc)
   \<and> ((\<exists>r. fst (send_notification clk a (svc, heap)) = Inr r) \<longrightarrow>
        fst (send_notification clk a (svc, heap)) = Inr a
        \<and> ns_sent_notifications (fst (snd (send_notification clk a (svc, heap))))
            = ns_sent_notifications svc @ [a])"
proof (intro conjI impI)
  assume typed: "(dict_get (heap a) (KStr ''recipients'') = None
       \<or> (\<exists>rs. dict_get (heap a) (KStr ''recipients'') = Some (PList rs)))
     \<and> (dict_get (heap a) (KStr ''channels'') = None
       \<or> (\<exists>cs. dict_get (heap a) (KStr ''channels'') = Some (PList (map PStr cs))))"
  let ?invalid = "dict_get (heap a) (KStr ''recipients'') = None
             \<or> dict_get (heap a) (KStr ''subject'') = None
             \<or> dict_get (heap a) (KStr ''content'') = None
             \<or> dict_get (heap a) (KStr ''recipients'') = Some (PList [])"
  from typed have valid_iff: "validate_notification (heap a) = Inr () \<longleftrightarrow> \<not> ?invalid"
    by (auto simp add: validate_notification_iff)
  from typed obtain channels
    where iter: "py_iter (dict_get_default (heap a) (KStr ''channels'') (PList [])) = Inr channels"
      and hashable: "\<forall>c \<in> set channels. \<exists>k. as_key c = Inr k"
    by (auto simp add: dict_get_default_def)
  show "(\<exists>m. fst (send_notification clk a (svc, heap)) = Inl (NotificationServiceError m))
        \<longleftrightarrow> ?invalid"
  proof
    assume "\<exists>m. fst (send_notification clk a (svc, heap)) = Inl (NotificationServiceError m)"
    then have "validate_notification (heap a) \<noteq> Inr ()"
      using send_notification_valid [where heap = heap and a = a and clk = clk and svc = svc,
          OF _ iter hashable] by auto
    with valid_iff show ?invalid by blast
  next
    assume ?invalid
    with valid_iff obtain e where "validate_notification (heap a) = Inl e"
      by (cases "validate_notification (heap a)") auto
    then show "\<exists>m. fst (send_notification clk a (svc, heap)) = Inl (NotificationServiceError m)"
      by (simp add: send_notification_invalid)
  qed
next
  assume "validate_notification (heap a) \<noteq> Inr ()"
  then obtain e where "validate_notification (heap a) = Inl e"
    by (cases "validate_notification (heap a)") auto
  then show "\<exists>m. fst (send_notification clk a (svc, heap)) = Inl (NotificationServiceError m)"
    and "snd (send_notification clk a (svc, heap)) = (svc, heap)"
    by (simp_all add: send_notification_invalid)
next
  assume "\<exists>e. fst (send_notification clk a (svc, heap)) = Inl e"
  with send_notification_result [of clk a svc heap]
  show "fst (snd (send_notification clk a (svc, heap))) = svc" by auto
next
  assume r: "\<exists>r. fst (send_notification clk a (svc, heap)) = Inr r"
  with send_notification_result [of clk a svc heap]
  show "fst (send_notification clk a (svc, heap)) = Inr a" by auto
  from r send_notification_result [of clk a svc heap]
  show "ns_sent_notifications (fst (snd (send_notification clk a (svc, heap))))
            = ns_sent_notifications svc @ [a]" by auto
qed

theorem send_notification_raises_iff_invalid_witness:
  "fst (send_notification
          \<lparr> sc_id_stamp = ''20240501_100000_000000'', sc_created_at = ''2024-05-01T10:00:00'',
            sc_handler_at = (\<lambda>i. ''2024-05-01T10:00:01''), sc_sent_at = ''2024-05-01T10:00:02'' \<rparr>
          0
          (NotificationService_init None,
           (\<lambda>a. [])
             (0 := [(KStr ''recipients'', PList [PStr ''auditor@example.com'']),
                    (KStr ''subject'', PStr ''Audit Alert''),
                    (KStr ''content'', PStr ''Please review''),
                    (KStr ''channels'', PList (map PStr [''email'', ''sms'']))])))
     = Inr 0
   \<and> ns_sent_notifications
       (fst (snd (send_notification
          \<lparr> sc_id_stamp = ''20240501_100000_000000'', sc_created_at = ''2024-05-01T10:00:00'',
            sc_handler_at = (\<lambda>i. ''2024-05-01T10:00:01''), sc_sent_at = ''2024-05-01T10:00:02'' \<rparr>
          0
          (NotificationService_init None,
           (\<lambda>a. [])
             (0 := [(KStr ''recipients'', PList [PStr ''auditor@example.com'']),
                    (KStr ''subject'', PStr ''Audit Alert''),
                    (KStr ''content'', PStr ''Please review''),
                    (KStr ''channels'', PList (map PStr [''email'', ''sms'']))])))))
     = [0]
   \<and> (\<exists>m. fst (send_notification
          \<lparr> sc_id_stamp = ''20240501_100000_000000'', sc_created_at = ''2024-05-01T10:00:00'',
            sc_handler_at = (\<lambda>i. ''2024-05-01T10:00:01''), sc_sent_at = ''2024-05-01T10:00:02'' \<rparr>
          0
          (NotificationService_init None,
           (\<lambda>a. [])
             (0 := [(KStr ''recipients'', PList [PStr ''auditor@example.com'']),
                    (KStr ''content'', PStr ''Please review'')])))
        = Inl (NotificationServiceError m))
   \<and> snd (send_notification
          \<lparr> sc_id_stamp = ''20240501_100000_000000'', sc_created_at = ''2024-05-01T10:00:00'',
            sc_handler_at = (\<lambda>i. ''2024-05-01T10:00:01''), sc_sent_at = ''2024-05-01T10:00:02'' \<rparr>
          0
          (NotificationService_init None,
           (\<lambda>a. [])
             (0 := [(KStr ''recipients'', PList [PStr ''auditor@example.com'']),
                    (KStr ''content'', PStr ''Please review'')])))
     = (NotificationService_init None,
        (\<lambda>a. [])
          (0 := [(KStr ''recipients'', PList [PStr ''auditor@example.com'']),
                 (KStr ''content'', PStr ''Please review'')]))"
proof -
  let ?n = "[(KStr ''recipients'', PList [PStr ''auditor@example.com'']),
             (KStr ''subject'', PStr ''Audit Alert''),
             (KStr ''content'', PStr ''Please review''),
             (KStr ''channels'', PList (map PStr [''email'', ''sms'']))]"
  let ?m = "[(KStr ''recipients'', PList [PStr ''auditor@example.com'']),
             (KStr ''content'', PStr ''Please review'')]"
  let ?heap = "(\<lambda>a. []) (0 := ?n) :: store"
  let ?heap' = "(\<lambda>a. []) (0 := ?m) :: store"
  let ?clk = "\<lparr> sc_id_stamp = ''20240501_100000_000000'', sc_created_at = ''2024-05-01T10:00:00'',
              sc_handler_at = (\<lambda>i. ''2024-05-01T10:00:01''), sc_sent_at = ''2024-05-01T10:00:02'' \<rparr>"
  let ?svc = "NotificationService_init None"
  let ?run = "send_notification ?clk 0 (?svc, ?heap)"
  let ?run' = "send_notification ?clk 0 (?svc, ?heap')"
  note inst = send_notification_raises_iff_invalid [of ?heap 0 ?clk ?svc]
  note inst' = send_notification_raises_iff_invalid [of ?heap' 0 ?clk ?svc]
  have typed: "(dict_get (?heap 0) (KStr ''recipients'') = None
       \<or> (\<exists>rs. dict_get (?heap 0) (KStr ''recipients'') = Some (PList rs)))
     \<and> (dict_get (?heap 0) (KStr ''channels'') = None
       \<or> (\<exists>cs. dict_get (?heap 0) (KStr ''channels'') = Some (PList (map PStr cs))))"
  proof -
    have "dict_get (?heap 0) (KStr ''recipients'') = Some (PList [PStr ''auditor@example.com''])"
      by (simp add: key_eq_KStr)
    moreover
    have "dict_get (?heap 0) (KStr ''channels'') = Some (PList (map PStr [''email'', ''sms'']))"
      by (simp add: key_eq_KStr)
    ultimately show ?thesis by blast
  qed
  have complete: "\<not> (dict_get (?heap 0) (KStr ''recipients'') = None
             \<or> dict_get (?heap 0) (KStr ''subject'') = None
             \<or> dict_get (?heap 0) (KStr ''content'') = None
             \<or> dict_get (?heap 0) (KStr ''recipients'') = Some (PList []))"
    by (simp add: key_eq_KStr)
  from inst typed complete
  have no_raise: "\<not> (\<exists>m. fst ?run = Inl (NotificationServiceError m))" by blast
  with send_notification_result [of ?clk 0 ?svc ?heap]
  have "\<exists>r. fst ?run = Inr r" by auto
  with inst have "fst ?run = Inr 0"
    and "ns_sent_notifications (fst (snd ?run)) = ns_sent_notifications ?svc @ [0]"
    by blast+
  then have sent: "fst ?run = Inr 0" "ns_sent_notifications (fst (snd ?run)) = [0]"
    by (simp_all add: NotificationService_init_def Let_def)
  have "validate_notification (?heap' 0) \<noteq> Inr ()"
    by (simp add: validate_notification_def key_eq_KStr)
  with inst'
  have "(\<exists>m. fst ?run' = Inl (NotificationServiceError m)) \<and> snd ?run' = (?svc, ?heap')"
    by blast
  with sent show ?thesis by blast
qed

text \<open>
  Claim C9 as the specification states it fails: a notification with the three required
  fields and a non-empty list of recipients, whose \<open>channels\<close> is \<open>None\<close>, makes the loop
  over the channels raise \<open>TypeError\<close>, which \<open>send_notification\<close> raises again as
  \<open>NotificationServiceError\<close>.
\<close>

theorem channels_none_counterexample:
  "dict_get [(KStr ''recipients'', PList [PStr ''auditor@example.com'']),
             (KStr ''subject'', PStr ''Audit Alert''),
             (KStr ''content'', PStr ''Please review''),
             (KStr ''channels'', PNone)]
     (KStr ''recipients'') = Some (PList [PStr ''auditor@example.com''])
   \<and> dict_get [(KStr ''recipients'', PList [PStr ''auditor@example.com'']),
             (KStr ''subject'', PStr ''Audit Alert''),
             (KStr ''content'', PStr ''Please review''),
             (KStr ''channels'', PNone)]
     (KStr ''subject'') = Some (PStr ''Audit Alert'')
   \<and> dict_get [(KStr ''recipients'', PList [PStr ''auditor@example.com'']),
             (KStr ''subject'', PStr ''Audit Alert''),
             (KStr ''content'', PStr ''Please review''),
             (KStr ''channels'', PNone)]
     (KStr ''content'') = Some (PStr ''Please review'')
   \<and> fst (send_notification
            \<lparr> sc_id_stamp = ''20240501_100000_000000'', sc_created_at = ''2024-05-01T10:00:00'',
              sc_handler_at = (\<lambda>i. ''2024-05-01T10:00:01''), sc_sent_at = ''2024-05-01T10:00:02'' \<rparr>
            0
            (NotificationService_init None,
             (\<lambda>a. [])
               (0 := [(KStr ''recipients'', PList [PStr ''auditor@example.com'']),
                      (KStr ''subject'', PStr ''Audit Alert''),
                      (KStr ''content'', PStr ''Please review''),
                      (KStr ''channels'', PNone)])))
       = Inl (NotificationServiceError
                (''Failed to send notification: '' @ str_exn (NotIterable ''NoneType'')))"
  by (simp add: send_notification_def validate_notification_def dict_getitem_def
      dict_get_default_def stamped_def key_eq_KStr Let_def)

section \<open>Properties of the audit log\<close>




end
